theory Spec2Isabelle
  imports Complex_Main "HOL-Library.Multiset" "HOL-Library.Sublist"
begin

section \<open>PS2: the hybrid column-matching engine (hybrid\_ai\_engine.py)\<close>

text \<open>
  Python floats are modelled as \<^typ>\<open>real\<close>: the scoring formulas are read as exact
  arithmetic. A schema is a Python dict of dicts; insertion order matters for the
  iteration, so it is an association list from table names to lists of
  (column, data type) pairs.
\<close>

type_synonym schema = "(string \<times> (string \<times> string) list) list"

text \<open>
  One entry of the \<open>mappings\<close> list of the JSON object returned by Gemini. A field that
  is read with \<open>.get\<close> is optional (\<open>None\<close>: the key is absent); \<open>m['source']\<close> is read
  directly.
\<close>

record gemini_mapping =
  gm_source :: string
  gm_target :: "string option"
  gm_confidence :: "real option"
  gm_why_mapped :: "string option"
  gm_transformation :: "string option"
  gm_why_not_others :: "string option"
  gm_mapping_type :: "string option"

text \<open>\<open>MatchResult\<close>.\<close>

record match_result =
  mr_source_column :: string
  mr_target_column :: string
  mr_source_table :: string
  mr_target_table :: string
  mr_bert_score :: real
  mr_gemini_score :: real
  mr_tfidf_score :: real
  mr_domain_score :: real
  mr_ensemble_score :: real
  mr_confidence_level :: string
  mr_mapping_type :: string
  mr_transformation :: string
  mr_explanation :: string
  mr_why_mapped :: string
  mr_why_not_others :: string
  mr_data_type_source :: string
  mr_data_type_target :: string

text \<open>The \<open>best_match\<close> dict of \<open>match_columns\<close>.\<close>

record best_match =
  bm_target :: string
  bm_target_table :: string
  bm_bert :: real
  bm_gemini :: real
  bm_tfidf :: real
  bm_domain :: real
  bm_gemini_info :: "gemini_mapping option"
  bm_target_type :: string

text \<open>
  The engine. The three local similarity signals are computed by pretrained models and
  text statistics outside this development and are taken as functions of the two column
  names; \<open>gemini_model\<close> says whether \<open>self.gemini_model\<close> is set, and
  \<open>get_gemini_analysis\<close> gives the \<open>mappings\<close> list of the analysis of one table pair
  (empty when the analysis is \<open>{}\<close>).
\<close>

record engine =
  gemini_model :: bool
  calculate_bert_similarity :: "string \<Rightarrow> string \<Rightarrow> real"
  calculate_tfidf_similarity :: "string \<Rightarrow> string \<Rightarrow> real"
  calculate_domain_similarity :: "string \<Rightarrow> string \<Rightarrow> real"
  get_gemini_analysis :: "string list \<Rightarrow> string list \<Rightarrow> string \<Rightarrow> string \<Rightarrow> gemini_mapping list"

text \<open>\<open>self.weights\<close>.\<close>

definition weight_bert :: real where "weight_bert = 0.30"
definition weight_gemini :: real where "weight_gemini = 0.40"
definition weight_tfidf :: real where "weight_tfidf = 0.10"
definition weight_domain :: real where "weight_domain = 0.20"

definition base_ensemble :: "real \<Rightarrow> real \<Rightarrow> real \<Rightarrow> real \<Rightarrow> real" where
  "base_ensemble bert_score gemini_score tfidf_score domain_score =
     weight_bert * bert_score + weight_gemini * gemini_score +
     weight_tfidf * tfidf_score + weight_domain * domain_score"

text \<open>The ensemble score of one (source column, target column) pair.\<close>

definition ensemble :: "bool \<Rightarrow> real \<Rightarrow> real \<Rightarrow> real \<Rightarrow> real \<Rightarrow> real" where
  "ensemble has_gemini bert_score gemini_score tfidf_score domain_score =
     (if has_gemini then
        (if gemini_score \<ge> 0.8 then
           base_ensemble bert_score gemini_score tfidf_score domain_score * 0.3
             + gemini_score * 0.7
         else if gemini_score \<ge> 0.5 then
           base_ensemble bert_score gemini_score tfidf_score domain_score * 0.5
             + gemini_score * 0.5
         else base_ensemble bert_score gemini_score tfidf_score domain_score)
      else 0.50 * bert_score + 0.21 * tfidf_score + 0.29 * domain_score)"

text \<open>
  \<open>gemini_cache\<close>: filled for every table pair under the key \<open>src_tgt\<close>, a later pair
  with the same key overwriting an earlier one; empty without a Gemini model.
\<close>

definition cache_key :: "string \<Rightarrow> string \<Rightarrow> string" where
  "cache_key src_table tgt_table = src_table @ ''_'' @ tgt_table"

definition build_gemini_cache :: "engine \<Rightarrow> schema \<Rightarrow> schema \<Rightarrow> (string \<times> gemini_mapping list) list" where
  "build_gemini_cache eng source_schema target_schema =
     (if gemini_model eng then
        rev (concat (map (\<lambda>(src_table, src_cols).
               map (\<lambda>(tgt_table, tgt_cols).
                      (cache_key src_table tgt_table,
                       get_gemini_analysis eng (map fst src_cols) (map fst tgt_cols)
                         src_table tgt_table))
                   target_schema)
             source_schema))
      else [])"

text \<open>\<open>{m['source']: m for m in mappings}\<close>: the last entry for a source wins.\<close>

definition gemini_mappings :: "gemini_mapping list \<Rightarrow> string \<Rightarrow> gemini_mapping option" where
  "gemini_mappings ms = map_of (rev (map (\<lambda>m. (gm_source m, m)) ms))"

text \<open>The body of the innermost loop: score one target column and keep the best.\<close>

definition gemini_score_of :: "gemini_mapping option \<Rightarrow> string \<Rightarrow> real" where
  "gemini_score_of gemini_info tgt_col =
     (case gemini_info of
        None \<Rightarrow> 0
      | Some m \<Rightarrow> (if gm_target m = Some tgt_col
                   then (case gm_confidence m of None \<Rightarrow> 0 | Some c \<Rightarrow> c)
                   else 0))"

definition consider_target ::
  "engine \<Rightarrow> string \<Rightarrow> string \<Rightarrow> gemini_mapping option \<Rightarrow>
   (best_match option \<times> real) \<Rightarrow> (string \<times> string) \<Rightarrow> (best_match option \<times> real)" where
  "consider_target eng src_col tgt_table gemini_info st tc =
     (case st of (best, best_score) \<Rightarrow>
      case tc of (tgt_col, tgt_type) \<Rightarrow>
        let bert_score = calculate_bert_similarity eng src_col tgt_col;
            tfidf_score = calculate_tfidf_similarity eng src_col tgt_col;
            domain_score = calculate_domain_similarity eng src_col tgt_col;
            gemini_score = gemini_score_of gemini_info tgt_col;
            ens = ensemble (gemini_model eng) bert_score gemini_score tfidf_score domain_score
        in if ens > best_score
           then (Some \<lparr> bm_target = tgt_col, bm_target_table = tgt_table,
                        bm_bert = bert_score, bm_gemini = gemini_score,
                        bm_tfidf = tfidf_score, bm_domain = domain_score,
                        bm_gemini_info = gemini_info, bm_target_type = tgt_type \<rparr>, ens)
           else (best, best_score))"

definition consider_table ::
  "engine \<Rightarrow> (string \<times> gemini_mapping list) list \<Rightarrow> string \<Rightarrow> string \<Rightarrow>
   (best_match option \<times> real) \<Rightarrow> (string \<times> (string \<times> string) list) \<Rightarrow>
   (best_match option \<times> real)" where
  "consider_table eng cache src_table src_col st tt =
     (case tt of (tgt_table, tgt_columns) \<Rightarrow>
        let gemini_data = (case map_of cache (cache_key src_table tgt_table) of
                             None \<Rightarrow> [] | Some ms \<Rightarrow> ms);
            gemini_info = gemini_mappings gemini_data src_col
        in foldl (consider_target eng src_col tgt_table gemini_info) st tgt_columns)"

definition find_best ::
  "engine \<Rightarrow> (string \<times> gemini_mapping list) list \<Rightarrow> schema \<Rightarrow> string \<Rightarrow> string \<Rightarrow>
   (best_match option \<times> real)" where
  "find_best eng cache target_schema src_table src_col =
     foldl (consider_table eng cache src_table src_col) (None, 0) target_schema"

text \<open>\<open>_generate_explanation\<close>.\<close>

definition generate_explanation :: "string \<Rightarrow> string \<Rightarrow> best_match \<Rightarrow> string" where
  "generate_explanation source target scores =
     (let q = [CHR 0x27] in
      if bm_domain scores > 0.8 then
        q @ source @ q @ '' is a common abbreviation for '' @ q @ target @ q @ '' in database systems''
      else if bm_bert scores > 0.8 then
        q @ source @ q @ '' and '' @ q @ target @ q @ '' have very similar semantic meanings''
      else if bm_tfidf scores > 0.7 then
        q @ source @ q @ '' and '' @ q @ target @ q @ '' share similar naming patterns''
      else ''Multiple factors suggest '' @ q @ source @ q @ '' corresponds to '' @ q @ target @ q)"

definition opt_get :: "'a option \<Rightarrow> ('a \<Rightarrow> 'b option) \<Rightarrow> 'b \<Rightarrow> 'b" where
  "opt_get info field dflt =
     (case info of None \<Rightarrow> dflt
      | Some m \<Rightarrow> (case field m of None \<Rightarrow> dflt | Some v \<Rightarrow> v))"

text \<open>The match of one source column: a result when the best score reaches the threshold.\<close>

definition match_source_column ::
  "engine \<Rightarrow> (string \<times> gemini_mapping list) list \<Rightarrow> schema \<Rightarrow> real \<Rightarrow> string \<Rightarrow>
   (string \<times> string) \<Rightarrow> match_result list" where
  "match_source_column eng cache target_schema threshold src_table sc =
     (case sc of (src_col, src_type) \<Rightarrow>
      case find_best eng cache target_schema src_table src_col of
        (None, best_score) \<Rightarrow> []
      | (Some bm, best_score) \<Rightarrow>
          if best_score \<ge> threshold then
            let confidence = (if best_score \<ge> 0.85 then ''high''
                              else if best_score \<ge> 0.65 then ''medium'' else ''low'');
                gemini_info = bm_gemini_info bm;
                why_mapped = opt_get gemini_info gm_why_mapped
                               (generate_explanation src_col (bm_target bm) bm)
            in [\<lparr> mr_source_column = src_col,
                   mr_target_column = bm_target bm,
                   mr_source_table = src_table,
                   mr_target_table = bm_target_table bm,
                   mr_bert_score = bm_bert bm,
                   mr_gemini_score = bm_gemini bm,
                   mr_tfidf_score = bm_tfidf bm,
                   mr_domain_score = bm_domain bm,
                   mr_ensemble_score = best_score,
                   mr_confidence_level = confidence,
                   mr_mapping_type = opt_get gemini_info gm_mapping_type ''1:1'',
                   mr_transformation = opt_get gemini_info gm_transformation ''none'',
                   mr_explanation = why_mapped,
                   mr_why_mapped = why_mapped,
                   mr_why_not_others = opt_get gemini_info gm_why_not_others [],
                   mr_data_type_source = src_type,
                   mr_data_type_target = bm_target_type bm \<rparr>]
          else [])"

text \<open>\<open>HybridAIEngine.match_columns\<close>: the list of results (the statistics are left out).\<close>

definition match_columns :: "engine \<Rightarrow> schema \<Rightarrow> schema \<Rightarrow> real \<Rightarrow> match_result list" where
  "match_columns eng source_schema target_schema threshold =
     (let cache = build_gemini_cache eng source_schema target_schema
      in concat (map (\<lambda>(src_table, src_columns).
                   concat (map (match_source_column eng cache target_schema threshold src_table)
                             src_columns))
                 source_schema))"



definition example_engine :: engine where
  "example_engine = \<lparr> gemini_model = True,
       calculate_bert_similarity = (\<lambda>s t. 0.5),
       calculate_tfidf_similarity = (\<lambda>s t. 0.25),
       calculate_domain_similarity = (\<lambda>s t. 1),
       get_gemini_analysis = (\<lambda>sc tc st tt.
          [\<lparr> gm_source = ''cust_id'', gm_target = Some ''customer_id'',
              gm_confidence = Some 0.9, gm_why_mapped = None, gm_transformation = None,
              gm_why_not_others = None, gm_mapping_type = None \<rparr>]) \<rparr>"

definition example_source :: schema where
  "example_source = [(''cust_info'', [(''cust_id'', ''INTEGER'')])]"
definition example_target :: schema where
  "example_target = [(''customers'', [(''customer_id'', ''INTEGER''), (''city'', ''TEXT'')])]"


section \<open>PS1: the claim verifier (claim\_verifier.py)\<close>

text \<open>\<open>ClaimVerifier.LABEL_MAP\<close>.\<close>

definition LABEL_MAP :: "nat \<Rightarrow> string option" where
  "LABEL_MAP = [0 \<mapsto> ''contradiction'', 1 \<mapsto> ''neutral'', 2 \<mapsto> ''entailment'']"

text \<open>
  \<open>torch.softmax\<close> over the class logits of the single input pair, and \<open>torch.argmax\<close>,
  which gives the index of the first maximal entry. Logits and probabilities are reals.
\<close>

definition softmax :: "real list \<Rightarrow> real list" where
  "softmax logits = map (\<lambda>x. exp x / sum_list (map exp logits)) logits"

fun argmax_from :: "nat \<Rightarrow> real \<Rightarrow> nat \<Rightarrow> real list \<Rightarrow> nat" where
  "argmax_from best best_val i [] = best"
| "argmax_from best best_val i (x # xs) =
     (if x > best_val then argmax_from i x (Suc i) xs
      else argmax_from best best_val (Suc i) xs)"

definition argmax :: "real list \<Rightarrow> nat" where
  "argmax xs = (case xs of [] \<Rightarrow> 0 | x # rest \<Rightarrow> argmax_from 0 x 1 rest)"

text \<open>
  \<open>_run_nli\<close>. The tokenizer and the NLI model are one function from the premise and the
  hypothesis to the list of class logits.
\<close>

definition run_nli :: "(string \<Rightarrow> string \<Rightarrow> real list) \<Rightarrow> string \<Rightarrow> string \<Rightarrow> string \<times> real" where
  "run_nli nli_model premise hypothesis =
     (let logits = nli_model premise hypothesis;
          probs = softmax logits;
          predicted_label = argmax probs;
          confidence = probs ! predicted_label;
          label = (case LABEL_MAP predicted_label of None \<Rightarrow> ''unknown'' | Some l \<Rightarrow> l)
      in (label, confidence))"

text \<open>A retrieved chunk (\<open>search_similar\<close>) and an entry of \<open>nli_results\<close>.\<close>

record chunk =
  chunk_text :: string
  chunk_source :: string
  chunk_page :: nat
  chunk_score :: real

record nli_result =
  nr_text :: string
  nr_source :: string
  nr_page :: nat
  nr_nli_label :: string
  nr_confidence :: real
  nr_retrieval_score :: real
  nr_implicit_contradiction :: bool

text \<open>\<open>max(results, key=lambda x: x['confidence'])\<close>: the first entry of greatest confidence.\<close>

fun max_confidence_from :: "nli_result \<Rightarrow> nli_result list \<Rightarrow> nli_result" where
  "max_confidence_from best [] = best"
| "max_confidence_from best (r # rs) =
     (if nr_confidence r > nr_confidence best then max_confidence_from r rs
      else max_confidence_from best rs)"

definition max_confidence :: "nli_result list \<Rightarrow> nli_result option" where
  "max_confidence rs = (case rs of [] \<Rightarrow> None | r # rest \<Rightarrow> Some (max_confidence_from r rest))"

text \<open>\<open>str.lower\<close> on ASCII letters, and the substring test \<open>word in text\<close>.\<close>

definition lower_char :: "char \<Rightarrow> char" where
  "lower_char c = (let n = (of_char c :: nat)
                   in if 65 \<le> n \<and> n \<le> 90 then char_of (n + 32) else c)"

definition lower :: "string \<Rightarrow> string" where
  "lower s = map lower_char s"

fun contains :: "string \<Rightarrow> string \<Rightarrow> bool" where
  "contains [] w = (w = [])"
| "contains (c # cs) w = (take (length w) (c # cs) = w \<or> contains cs w)"

definition contains_any :: "string \<Rightarrow> string list \<Rightarrow> bool" where
  "contains_any s ws = list_ex (contains s) ws"

text \<open>
  The loop over the neutral results: the index (in \<open>nli_results\<close>) of the first neutral
  result whose text speaks of contraindications and whose retrieval score reaches the
  threshold.
\<close>

fun find_implicit :: "nat \<Rightarrow> nli_result list \<Rightarrow> nat option" where
  "find_implicit i [] = None"
| "find_implicit i (r # rs) =
     (if nr_nli_label r = ''neutral'' \<and>
         contains_any (lower (nr_text r))
           [''contraindication'', ''avoid'', ''should not'', ''must not''] \<and>
         nr_retrieval_score r \<ge> - 0.1
      then Some i else find_implicit (Suc i) rs)"

text \<open>
  \<open>_aggregate_nli_results\<close>: the status, the best evidence and the list of results, in
  which the result returned as an implicit contradiction has been marked (the source
  marks the dict that the list holds). The explanation text is left out.
\<close>

definition reaches :: "nli_result option \<Rightarrow> real \<Rightarrow> bool" where
  "reaches best threshold =
     (case best of None \<Rightarrow> False | Some r \<Rightarrow> nr_confidence r \<ge> threshold)"

definition aggregate_nli_results ::
  "string \<Rightarrow> nli_result list \<Rightarrow> string \<times> nli_result option \<times> nli_result list" where
  "aggregate_nli_results claim nli_results =
     (let entailments = filter (\<lambda>r. nr_nli_label r = ''entailment'') nli_results;
          contradictions = filter (\<lambda>r. nr_nli_label r = ''contradiction'') nli_results;
          is_contraindication_claim = contains_any (lower claim)
            [''avoid'', ''contraindication'', ''should not'', ''must not'', ''do not'',
             ''don'' @ [CHR 0x27] @ ''t''];
          unverifiable = (''unverifiable'', max_confidence nli_results, nli_results)
      in if reaches (max_confidence entailments) 0.7 then
           (''supported'', max_confidence entailments, nli_results)
         else if reaches (max_confidence contradictions) 0.5 then
           (''contradicted'', max_confidence contradictions, nli_results)
         else if is_contraindication_claim then
           (case find_implicit 0 nli_results of
              Some i \<Rightarrow>
                (let result = (nli_results ! i)\<lparr> nr_implicit_contradiction := True \<rparr>
                 in (''contradicted'', Some result, nli_results[i := result]))
            | None \<Rightarrow> unverifiable)
         else unverifiable)"

text \<open>
  \<open>verify_claim\<close>. The retrieval (\<open>embedding_engine.search_similar\<close>) is a function from
  the claim and \<open>top_k\<close> to the retrieved chunks.
\<close>

record claim_result =
  cr_claim :: string
  cr_status :: string
  cr_confidence :: real
  cr_evidence :: "nli_result option"
  cr_all_evidence :: "nli_result list"

record verifier =
  search_similar :: "string \<Rightarrow> nat \<Rightarrow> chunk list"
  nli_model :: "string \<Rightarrow> string \<Rightarrow> real list"

definition nli_of_chunk :: "verifier \<Rightarrow> string \<Rightarrow> chunk \<Rightarrow> nli_result" where
  "nli_of_chunk v claim c =
     (case run_nli (nli_model v) (chunk_text c) claim of
        (label, confidence) \<Rightarrow>
          \<lparr> nr_text = chunk_text c, nr_source = chunk_source c, nr_page = chunk_page c,
            nr_nli_label = label, nr_confidence = confidence,
            nr_retrieval_score = chunk_score c, nr_implicit_contradiction = False \<rparr>)"

definition verify_claim :: "verifier \<Rightarrow> string \<Rightarrow> nat \<Rightarrow> claim_result" where
  "verify_claim v claim top_k =
     (let evidence_chunks = search_similar v claim top_k
      in if evidence_chunks = [] then
           \<lparr> cr_claim = claim, cr_status = ''unverifiable'', cr_confidence = 0,
             cr_evidence = None, cr_all_evidence = [] \<rparr>
         else
           (case aggregate_nli_results claim (map (nli_of_chunk v claim) evidence_chunks) of
              (final_status, best_evidence, nli_results) \<Rightarrow>
                \<lparr> cr_claim = claim, cr_status = final_status,
                  cr_confidence = (case best_evidence of None \<Rightarrow> 0
                                   | Some e \<Rightarrow> nr_confidence e),
                  cr_evidence = best_evidence,
                  cr_all_evidence = take 3 nli_results \<rparr>))"

text \<open>\<open>verify_document\<close>.\<close>

record document_result =
  dr_claims :: "claim_result list"
  dr_total :: nat
  dr_supported :: nat
  dr_contradicted :: nat
  dr_unverifiable :: nat
  dr_trust_score :: real

definition count_status :: "string \<Rightarrow> claim_result list \<Rightarrow> nat" where
  "count_status s results = length (filter (\<lambda>r. cr_status r = s) results)"

definition verify_document :: "verifier \<Rightarrow> string list \<Rightarrow> document_result" where
  "verify_document v claims =
     (let results = map (\<lambda>claim. verify_claim v claim 5) claims;
          supported = count_status ''supported'' results;
          contradicted = count_status ''contradicted'' results;
          unverifiable = count_status ''unverifiable'' results;
          total = length results;
          trust_score0 = (if total > 0 then real supported / real total else 0);
          trust_score1 = trust_score0
             - (if total > 0 then (real contradicted / real total) * 0.5 else 0);
          trust_score = max 0 (min 1 trust_score1)
      in \<lparr> dr_claims = results, dr_total = total, dr_supported = supported,
           dr_contradicted = contradicted, dr_unverifiable = unverifiable,
           dr_trust_score = trust_score \<rparr>)"

text \<open>Example inputs.\<close>

definition example_verifier :: verifier where
  "example_verifier =
     \<lparr> search_similar = (\<lambda>claim top_k.
          if claim = ''The moon is made of cheese.'' then []
          else [\<lparr> chunk_text = ''Metformin is first-line therapy.'', chunk_source = ''guide.pdf'',
                  chunk_page = 3, chunk_score = 1 / 2 \<rparr>]),
       nli_model = (\<lambda>premise hypothesis.
          if hypothesis = ''Metformin is first-line.'' then [0, 0, ln 8]
          else if hypothesis = ''Metformin is never used.'' then [ln 8, 0, 0]
          else [0, 0, 0]) \<rparr>"

definition example_claims :: "string list" where
  "example_claims = [''Metformin is first-line.'', ''Metformin is never used.'',
                     ''The moon is made of cheese.'', ''Metformin is old.'']"

section \<open>PS2: the semantic matcher (semantic\_matcher.py)\<close>

datatype py_error =
    StopIteration
  | OperationalError string
  | IntegrityError string
  | ProgrammingError string
  | OtherError string string

datatype MatchConfidence = HIGH | MEDIUM | LOW | NONE

text \<open>\<open>ColumnInfo\<close> and \<open>TableInfo\<close> (schema\_extractor.py): the fields the matcher reads.\<close>

record column_info =
  ci_name :: string
  ci_data_type :: string
  ci_is_nullable :: bool
  ci_is_primary_key :: bool

record table_info =
  ti_name :: string
  ti_columns :: "column_info list"

text \<open>\<open>ColumnMatch\<close>.\<close>

record column_match =
  cm_source_column :: string
  cm_source_table :: string
  cm_target_column :: string
  cm_target_table :: string
  cm_overall_score :: real
  cm_confidence :: MatchConfidence
  cm_semantic_score :: real
  cm_syntactic_score :: real
  cm_type_score :: real
  cm_explanation :: string
  cm_warnings :: "string list"

text \<open>
  The matcher. The embedding similarity and the fuzzy string similarity come from
  libraries outside this development and are functions of the two column names;
  \<open>format_percent\<close> is the float format \<open>:.0%\<close>.
\<close>

record matcher =
  compute_semantic_score :: "string \<Rightarrow> string \<Rightarrow> real"
  compute_syntactic_score :: "string \<Rightarrow> string \<Rightarrow> real"
  format_percent :: "real \<Rightarrow> string"

definition weight_semantic :: real where "weight_semantic = 0.50"
definition weight_syntactic :: real where "weight_syntactic = 0.30"
definition weight_type :: real where "weight_type = 0.20"

definition TYPE_COMPATIBILITY :: "(string \<times> string list) list" where
  "TYPE_COMPATIBILITY =
     [(''INTEGER'', [''INTEGER'', ''BIGINT'', ''INT'', ''SMALLINT'', ''NUMERIC'', ''DECIMAL'',
                    ''FLOAT'', ''DOUBLE'', ''REAL'']),
      (''INT'', [''INTEGER'', ''BIGINT'', ''INT'', ''SMALLINT'', ''NUMERIC'', ''DECIMAL'',
                ''FLOAT'', ''DOUBLE'', ''REAL'']),
      (''BIGINT'', [''BIGINT'', ''INTEGER'', ''NUMERIC'', ''DECIMAL'']),
      (''FLOAT'', [''FLOAT'', ''DOUBLE'', ''REAL'', ''NUMERIC'', ''DECIMAL'']),
      (''DOUBLE'', [''DOUBLE'', ''FLOAT'', ''REAL'', ''NUMERIC'', ''DECIMAL'']),
      (''REAL'', [''REAL'', ''FLOAT'', ''DOUBLE'', ''NUMERIC'', ''DECIMAL'']),
      (''TEXT'', [''TEXT'', ''VARCHAR'', ''CHAR'', ''NVARCHAR'', ''NCHAR'', ''STRING'', ''CLOB'']),
      (''VARCHAR'', [''VARCHAR'', ''TEXT'', ''CHAR'', ''NVARCHAR'', ''NCHAR'', ''STRING'']),
      (''CHAR'', [''CHAR'', ''VARCHAR'', ''TEXT'', ''NCHAR'']),
      (''BLOB'', [''BLOB'', ''BINARY'', ''VARBINARY'', ''BYTEA'']),
      (''DATE'', [''DATE'', ''DATETIME'', ''TIMESTAMP'']),
      (''DATETIME'', [''DATETIME'', ''TIMESTAMP'', ''DATE'']),
      (''TIMESTAMP'', [''TIMESTAMP'', ''DATETIME'', ''DATE'']),
      (''BOOLEAN'', [''BOOLEAN'', ''BIT'', ''TINYINT'', ''INTEGER'']),
      (''BOOL'', [''BOOLEAN'', ''BIT'', ''TINYINT'', ''INTEGER''])]"

text \<open>\<open>type.upper().split('(')[0].strip()\<close>, on ASCII.\<close>

definition upper_char :: "char \<Rightarrow> char" where
  "upper_char c = (let n = (of_char c :: nat)
                   in if 97 \<le> n \<and> n \<le> 122 then char_of (n - 32) else c)"

definition is_space :: "char \<Rightarrow> bool" where
  "is_space c = (let n = (of_char c :: nat) in n = 32 \<or> (9 \<le> n \<and> n \<le> 13) \<or> (28 \<le> n \<and> n \<le> 31))"

definition strip :: "string \<Rightarrow> string" where
  "strip s = rev (dropWhile is_space (rev (dropWhile is_space s)))"

definition normalize_type :: "string \<Rightarrow> string" where
  "normalize_type t = strip (takeWhile (\<lambda>c. c \<noteq> CHR ''('') (map upper_char t))"

definition compatible_with :: "string \<Rightarrow> string \<Rightarrow> bool" where
  "compatible_with a b =
     (case map_of TYPE_COMPATIBILITY a of None \<Rightarrow> False | Some ts \<Rightarrow> b \<in> set ts)"

definition compute_type_score :: "string \<Rightarrow> string \<Rightarrow> real" where
  "compute_type_score source_type target_type =
     (let s = normalize_type source_type; t = normalize_type target_type
      in if s = t then 1.0
         else if compatible_with s t then 0.8
         else if compatible_with t s then 0.6
         else 0.2)"

text \<open>\<open>_determine_confidence\<close>.\<close>

definition determine_confidence :: "real \<Rightarrow> MatchConfidence" where
  "determine_confidence score =
     (if score \<ge> 0.85 then HIGH
      else if score \<ge> 0.60 then MEDIUM
      else if score \<ge> 0.40 then LOW
      else NONE)"

text \<open>
  \<open>_generate_explanation\<close>: the explanation text and the match with the warnings the
  function appends to it.
\<close>

fun join :: "string \<Rightarrow> string list \<Rightarrow> string" where
  "join sep [] = []"
| "join sep [x] = x"
| "join sep (x # y # ys) = x @ sep @ join sep (y # ys)"

definition arrow :: string where
  "arrow = [CHR 0xE2, CHR 0x86, CHR 0x92]"

definition generate_match_explanation ::
  "matcher \<Rightarrow> column_match \<Rightarrow> column_info \<Rightarrow> column_info \<Rightarrow> string \<times> column_match" where
  "generate_match_explanation mt mtch source_col target_col =
     (let parts1 =
            (if cm_semantic_score mtch > 0.8 then
               [''Strong semantic similarity ('' @ format_percent mt (cm_semantic_score mtch) @ '')'']
             else if cm_semantic_score mtch > 0.6 then
               [''Moderate semantic similarity ('' @ format_percent mt (cm_semantic_score mtch) @ '')'']
             else []);
          parts2 = parts1 @
            (if cm_syntactic_score mtch > 0.8 then
               [''Names are very similar ('' @ format_percent mt (cm_syntactic_score mtch) @ '')'']
             else if cm_syntactic_score mtch > 0.6 then
               [''Names are somewhat similar ('' @ format_percent mt (cm_syntactic_score mtch) @ '')'']
             else []);
          parts3 = parts2 @
            (if cm_type_score mtch = 1.0 then
               [''Exact type match ('' @ ci_data_type source_col @ '')'']
             else if cm_type_score mtch \<ge> 0.8 then
               [''Compatible types ('' @ ci_data_type source_col @ '' '' @ arrow @ '' ''
                  @ ci_data_type target_col @ '')'']
             else []);
          warnings1 = cm_warnings mtch @
            (if cm_type_score mtch \<noteq> 1.0 \<and> \<not> cm_type_score mtch \<ge> 0.8 \<and> cm_type_score mtch < 0.6
             then [''Type mismatch: '' @ ci_data_type source_col @ '' '' @ arrow @ '' ''
                     @ ci_data_type target_col]
             else []);
          warnings2 = warnings1 @
            (if ci_is_primary_key source_col \<and> \<not> ci_is_primary_key target_col
             then [''Source is PK but target is not''] else []);
          warnings3 = warnings2 @
            (if \<not> ci_is_nullable source_col \<and> ci_is_nullable target_col
             then [''Source is NOT NULL but target allows NULL''] else [])
      in (if parts3 \<noteq> [] then join ''; '' parts3 else ''Matched based on overall similarity'',
          mtch\<lparr> cm_warnings := warnings3 \<rparr>))"

text \<open>The inner loop of \<open>match_columns\<close>: one target column against the best so far.\<close>

definition consider_column ::
  "matcher \<Rightarrow> string \<Rightarrow> string \<Rightarrow> real \<Rightarrow> column_info \<Rightarrow>
   (column_match option \<times> real) \<Rightarrow> column_info \<Rightarrow> (column_match option \<times> real)" where
  "consider_column mt source_name target_name threshold src_col st tgt_col =
     (case st of (best_match, best_score) \<Rightarrow>
        let semantic = compute_semantic_score mt (ci_name src_col) (ci_name tgt_col);
            syntactic = compute_syntactic_score mt (ci_name src_col) (ci_name tgt_col);
            type_score = compute_type_score (ci_data_type src_col) (ci_data_type tgt_col);
            overall = weight_semantic * semantic + weight_syntactic * syntactic
                        + weight_type * type_score
        in if overall > best_score \<and> overall \<ge> threshold
           then (Some \<lparr> cm_source_column = ci_name src_col,
                        cm_source_table = source_name,
                        cm_target_column = ci_name tgt_col,
                        cm_target_table = target_name,
                        cm_overall_score = overall,
                        cm_confidence = determine_confidence overall,
                        cm_semantic_score = semantic,
                        cm_syntactic_score = syntactic,
                        cm_type_score = type_score,
                        cm_explanation = [],
                        cm_warnings = [] \<rparr>, overall)
           else (best_match, best_score))"

text \<open>
  The body of the outer loop: the matches collected so far, extended by the best match
  of one source column. \<open>next(...)\<close> raises \<open>StopIteration\<close> when no target column
  has the name of the best match.
\<close>

definition match_one_column ::
  "matcher \<Rightarrow> table_info \<Rightarrow> table_info \<Rightarrow> real \<Rightarrow> column_info \<Rightarrow>
   py_error + column_match list" where
  "match_one_column mt source_table target_table threshold src_col =
     (case foldl (consider_column mt (ti_name source_table) (ti_name target_table) threshold src_col)
             (None, 0) (ti_columns target_table) of
        (None, best_score) \<Rightarrow> Inr []
      | (Some best_match, best_score) \<Rightarrow>
          (case find (\<lambda>c. ci_name c = cm_target_column best_match) (ti_columns target_table) of
             None \<Rightarrow> Inl StopIteration
           | Some tgt_col \<Rightarrow>
               (case generate_match_explanation mt best_match src_col tgt_col of
                  (explanation, best_match') \<Rightarrow>
                    Inr [best_match'\<lparr> cm_explanation := explanation \<rparr>])))"

fun collect_matches ::
  "matcher \<Rightarrow> table_info \<Rightarrow> table_info \<Rightarrow> real \<Rightarrow> column_info list \<Rightarrow>
   py_error + column_match list" where
  "collect_matches mt source_table target_table threshold [] = Inr []"
| "collect_matches mt source_table target_table threshold (src_col # rest) =
     (case match_one_column mt source_table target_table threshold src_col of
        Inl e \<Rightarrow> Inl e
      | Inr ms \<Rightarrow>
          (case collect_matches mt source_table target_table threshold rest of
             Inl e \<Rightarrow> Inl e
           | Inr ms' \<Rightarrow> Inr (ms @ ms')))"

text \<open>
  \<open>SemanticMatcher.match_columns\<close>. \<open>list.sort\<close> with \<open>reverse=True\<close> is a stable sort
  into descending order of the key.
\<close>

definition semantic_match_columns ::
  "matcher \<Rightarrow> table_info \<Rightarrow> table_info \<Rightarrow> real \<Rightarrow> py_error + column_match list" where
  "semantic_match_columns mt source_table target_table threshold =
     (case collect_matches mt source_table target_table threshold (ti_columns source_table) of
        Inl e \<Rightarrow> Inl e
      | Inr matches \<Rightarrow> Inr (sort_key (\<lambda>x. - cm_overall_score x) matches))"

text \<open>What the loops maintain for the best match so far, and what every match satisfies.\<close>

definition match_inv :: "real \<Rightarrow> string \<Rightarrow> column_info list \<Rightarrow> (column_match option \<times> real) \<Rightarrow> bool" where
  "match_inv threshold src_name cols st =
     (case fst st of None \<Rightarrow> True
      | Some m \<Rightarrow> cm_overall_score m \<ge> threshold \<and>
                  cm_confidence m = determine_confidence (cm_overall_score m) \<and>
                  cm_source_column m = src_name \<and>
                  cm_target_column m \<in> ci_name ` set cols)"

definition good_match :: "real \<Rightarrow> column_match \<Rightarrow> bool" where
  "good_match threshold m =
     (cm_overall_score m \<ge> threshold \<and> cm_confidence m = determine_confidence (cm_overall_score m))"

text \<open>Example inputs.\<close>

definition example_matcher :: matcher where
  "example_matcher =
     \<lparr> compute_semantic_score = (\<lambda>s t. if s = ''cust_id'' \<and> t = ''customer_id'' then 0.9
                                        else if s = ''fname'' \<and> t = ''first_name'' then 0.7
                                        else 0.1),
       compute_syntactic_score = (\<lambda>s t. if s = ''cust_id'' \<and> t = ''customer_id'' then 0.8
                                         else if s = ''fname'' \<and> t = ''first_name'' then 0.5
                                         else 0.2),
       format_percent = (\<lambda>x. ''?%'') \<rparr>"

definition example_source_table :: table_info where
  "example_source_table =
     \<lparr> ti_name = ''cust_info'',
       ti_columns = [\<lparr> ci_name = ''fname'', ci_data_type = ''text'',
                        ci_is_nullable = True, ci_is_primary_key = False \<rparr>,
                     \<lparr> ci_name = ''cust_id'', ci_data_type = ''INTEGER'',
                        ci_is_nullable = False, ci_is_primary_key = True \<rparr>,
                     \<lparr> ci_name = ''zip'', ci_data_type = ''BLOB'',
                        ci_is_nullable = True, ci_is_primary_key = False \<rparr>] \<rparr>"

definition example_target_table :: table_info where
  "example_target_table =
     \<lparr> ti_name = ''customers'',
       ti_columns = [\<lparr> ci_name = ''customer_id'', ci_data_type = ''INTEGER'',
                        ci_is_nullable = False, ci_is_primary_key = True \<rparr>,
                     \<lparr> ci_name = ''first_name'', ci_data_type = ''VARCHAR(50)'',
                        ci_is_nullable = False, ci_is_primary_key = False \<rparr>] \<rparr>"

section \<open>PS2: the migration executor (migration\_executor.py)\<close>

subsection \<open>SQLite, as far as the executor uses it\<close>

text \<open>
  The sqlite3 library is outside the repository, and the executor hands it statements as
  text that it builds from the names of tables and columns. What SQLite makes of such a
  text is not modelled: the library is a parameter, a record of three functions from the
  content of a database (of any type \<open>'db\<close>) and the text of a statement to what Python
  gets back. The texts are built here as the source builds them.

  \<^item> \<open>sq_count\<close>: \<open>cursor.execute(sql)\<close> followed by \<open>cursor.fetchone()[0]\<close>, for the
    statement that counts rows;
  \<^item> \<open>sq_fetchall\<close>: \<open>cursor.execute(sql)\<close> followed by \<open>cursor.fetchall()\<close>, for a SELECT;
  \<^item> \<open>sq_execute\<close>: \<open>cursor.execute(sql, parameters)\<close> for an INSERT or a DELETE, which
    gives the changed content.

  A connection works on its own view of the content: statements change the view,
  \<open>commit\<close> writes the view to the file and \<open>rollback\<close> reads the file back into the
  view. A database file that cannot be opened is \<open>None\<close>.
\<close>

datatype sql_value = Null | IntV int | RealV real | TextV string

record 'db sqlite =
  sq_count :: "'db \<Rightarrow> string \<Rightarrow> py_error + nat"
  sq_fetchall :: "'db \<Rightarrow> string \<Rightarrow> py_error + sql_value list list"
  sq_execute :: "'db \<Rightarrow> string \<Rightarrow> sql_value list \<Rightarrow> py_error + 'db"

record 'db connection =
  conn_open :: bool
  conn_view :: 'db

subsection \<open>The texts of the statements\<close>

text \<open>\<open>str\<close> of an integer, as an f-string formats it.\<close>

fun str_nat :: "nat \<Rightarrow> string" where
  "str_nat n = (if n < 10 then [char_of (48 + n)]
                else str_nat (n div 10) @ [char_of (48 + n mod 10)])"

declare str_nat.simps [simp del]

definition str_int :: "int \<Rightarrow> string" where
  "str_int i = (if i < 0 then CHR ''-'' # str_nat (nat (- i)) else str_nat (nat i))"

text \<open>A name between double quotes.\<close>

definition quoted :: "string \<Rightarrow> string" where
  "quoted c = [CHR 0x22] @ c @ [CHR 0x22]"

text \<open>The count of \<open>migrate_table\<close>: the name of the source table is not quoted.\<close>

definition count_query :: "string \<Rightarrow> string" where
  "count_query source_table = ''SELECT COUNT('' @ ''*) FROM '' @ source_table"

text \<open>The SELECT and the INSERT of \<open>_migrate_batch\<close>: every name is quoted.\<close>

definition batch_query :: "string \<Rightarrow> string list \<Rightarrow> int \<Rightarrow> int \<Rightarrow> string" where
  "batch_query source_table source_columns batch_size offset =
     ''SELECT rowid, '' @ join '', '' (map quoted source_columns) @ '' FROM '' @
     quoted source_table @ '' LIMIT '' @ str_int batch_size @ '' OFFSET '' @ str_int offset"

definition insert_sql :: "string \<Rightarrow> string list \<Rightarrow> string" where
  "insert_sql target_table target_columns =
     ''INSERT INTO '' @ quoted target_table @ '' ('' @
     join '', '' (map quoted target_columns) @ '') VALUES ('' @
     join '', '' (map (\<lambda>c. ''?'') target_columns) @ '')''"

text \<open>The DELETE of \<open>rollback_migration\<close> and the SELECT of \<open>detect_split_candidates\<close>.\<close>

definition delete_sql :: "string \<Rightarrow> string" where
  "delete_sql target_table = ''DELETE FROM '' @ quoted target_table"

definition samples_query :: "string \<Rightarrow> string \<Rightarrow> string" where
  "samples_query source_table column =
     ''SELECT '' @ quoted column @ '' FROM '' @ quoted source_table @ '' WHERE '' @
     quoted column @ '' IS NOT NULL LIMIT 100''"

text \<open>\<open>str(e)\<close> and \<open>type(e).__name__\<close>.\<close>

fun error_str :: "py_error \<Rightarrow> string" where
  "error_str StopIteration = []"
| "error_str (OperationalError m) = m"
| "error_str (IntegrityError m) = m"
| "error_str (ProgrammingError m) = m"
| "error_str (OtherError n m) = m"

fun error_type_name :: "py_error \<Rightarrow> string" where
  "error_type_name StopIteration = ''StopIteration''"
| "error_type_name (OperationalError m) = ''OperationalError''"
| "error_type_name (IntegrityError m) = ''IntegrityError''"
| "error_type_name (ProgrammingError m) = ''ProgrammingError''"
| "error_type_name (OtherError n m) = n"

subsection \<open>The data classes\<close>

datatype MigrationStatus = PENDING | IN_PROGRESS | COMPLETED | FAILED | ROLLED_BACK | PARTIAL

record failed_record =
  fr_source_table :: string
  fr_record_id :: sql_value
  fr_record_data :: "(string \<times> sql_value) list"
  fr_error_message :: string
  fr_error_type :: string

text \<open>
  \<open>TransformationRule\<close>. A custom \<open>transformation_func\<close> is any Python callable: it gives
  a value or raises.
\<close>

record transformation_rule =
  tr_source_column :: string
  tr_target_column :: string
  tr_transformation_type :: string
  tr_transformation_func :: "(sql_value \<Rightarrow> py_error + sql_value) option"
  tr_sql_expression :: "string option"
  tr_description :: string

text \<open>\<open>MigrationResult\<close>; the start and end times and the duration are left out.\<close>

record migration_result =
  res_source_table :: string
  res_target_table :: string
  res_status :: MigrationStatus
  records_attempted :: nat
  records_migrated :: nat
  records_failed :: nat
  failed_records :: "failed_record list"
  res_error_message :: "string option"
  transformations_applied :: "string list"

text \<open>An entry of \<open>column_mappings\<close>: a dict in which each of the four keys may be absent.\<close>

record column_mapping =
  cmap_source_column :: "string option"
  cmap_source :: "string option"
  cmap_target_column :: "string option"
  cmap_target :: "string option"

text \<open>
  Python's conversions \<open>int\<close>, \<open>float\<close>, \<open>str\<close> and \<open>round(x, 1)\<close> are taken as given;
  \<open>None\<close> stands for the \<open>ValueError\<close> or \<open>TypeError\<close> of a conversion.
\<close>

record builtins =
  to_int :: "sql_value \<Rightarrow> sql_value option"
  to_float :: "sql_value \<Rightarrow> sql_value option"
  to_str :: "sql_value \<Rightarrow> string"
  round1 :: "real \<Rightarrow> real"

subsection \<open>The executor and its connections\<close>

text \<open>
  The state: the fields of the \<open>MigrationExecutor\<close> object, the two database files, the
  number of connections that are open, the log of the commits and rollbacks made on
  the target file, and the sqlite3 library.
\<close>

datatype db_event = Commit | Rollback

record 'db exec_state =
  source_conn :: "'db connection option"
  target_conn :: "'db connection option"
  results :: "migration_result list"
  is_dry_run :: bool
  source_disk :: "'db option"
  target_disk :: "'db option"
  open_handles :: nat
  target_log :: "db_event list"
  sqlite3 :: "'db sqlite"

definition unable_to_open :: py_error where
  "unable_to_open = OperationalError ''unable to open database file''"

definition closed_database :: py_error where
  "closed_database = ProgrammingError ''Cannot operate on a closed database.''"

definition none_attribute :: py_error where
  "none_attribute = OtherError ''AttributeError'' ''NoneType object has no attribute''"

definition index_error :: py_error where
  "index_error = OtherError ''IndexError'' ''tuple index out of range''"

text \<open>
  \<open>connect\<close>: the source connection is opened and stored first, then the target
  connection; the error of the first \<open>sqlite3.connect\<close> that fails is raised.
\<close>

definition connect :: "'db exec_state \<Rightarrow> py_error option \<times> 'db exec_state" where
  "connect s =
     (case source_disk s of
        None \<Rightarrow> (Some unable_to_open, s)
      | Some sdb \<Rightarrow>
          (let s1 = s\<lparr> source_conn := Some \<lparr> conn_open = True, conn_view = sdb \<rparr>,
                       open_handles := open_handles s + 1 \<rparr>
           in case target_disk s1 of
                None \<Rightarrow> (Some unable_to_open, s1)
              | Some tdb \<Rightarrow>
                  (None, s1\<lparr> target_conn := Some \<lparr> conn_open = True, conn_view = tdb \<rparr>,
                             open_handles := open_handles s1 + 1 \<rparr>)))"

text \<open>\<open>close\<close> on a connection: closing a closed connection does nothing.\<close>

definition close_conn :: "'db connection option \<Rightarrow> nat \<Rightarrow> 'db connection option \<times> nat" where
  "close_conn c n =
     (case c of
        None \<Rightarrow> (None, n)
      | Some k \<Rightarrow> (Some (k\<lparr> conn_open := False \<rparr>), if conn_open k then n - 1 else n))"

definition disconnect :: "'db exec_state \<Rightarrow> 'db exec_state" where
  "disconnect s =
     (case close_conn (source_conn s) (open_handles s) of
        (sc, n1) \<Rightarrow>
          (case close_conn (target_conn s) n1 of
             (tc, n2) \<Rightarrow> s\<lparr> source_conn := sc, target_conn := tc, open_handles := n2 \<rparr>))"

text \<open>Using a connection field: \<open>None\<close> has no methods, a closed connection refuses.\<close>

definition live_view :: "'db connection option \<Rightarrow> py_error + 'db" where
  "live_view c =
     (case c of
        None \<Rightarrow> Inl none_attribute
      | Some k \<Rightarrow> if conn_open k then Inr (conn_view k) else Inl closed_database)"

definition set_target_view :: "'db \<Rightarrow> 'db exec_state \<Rightarrow> 'db exec_state" where
  "set_target_view db s =
     s\<lparr> target_conn := map_option (\<lambda>k. k\<lparr> conn_view := db \<rparr>) (target_conn s) \<rparr>"

text \<open>\<open>self.target_conn.commit()\<close> and \<open>self.target_conn.rollback()\<close>.\<close>

definition commit_target :: "'db exec_state \<Rightarrow> py_error + 'db exec_state" where
  "commit_target s =
     (case live_view (target_conn s) of
        Inl e \<Rightarrow> Inl e
      | Inr db \<Rightarrow> Inr (s\<lparr> target_disk := Some db, target_log := target_log s @ [Commit] \<rparr>))"

definition rollback_target :: "'db exec_state \<Rightarrow> py_error + 'db exec_state" where
  "rollback_target s =
     (case live_view (target_conn s) of
        Inl e \<Rightarrow> Inl e
      | Inr db \<Rightarrow>
          Inr ((set_target_view (case target_disk s of None \<Rightarrow> db | Some d \<Rightarrow> d) s)
                 \<lparr> target_log := target_log s @ [Rollback] \<rparr>))"

subsection \<open>Transformations\<close>

text \<open>\<open>_apply_transformation\<close>; upper, lower and strip work on ASCII.\<close>

definition apply_transformation :: "builtins \<Rightarrow> sql_value \<Rightarrow> transformation_rule \<Rightarrow> py_error + sql_value" where
  "apply_transformation bi v tr =
     (case tr_transformation_func tr of
        Some f \<Rightarrow> f v
      | None \<Rightarrow>
          (let ty = tr_transformation_type tr
           in if ty = ''direct'' then Inr v
              else if ty = ''cast_int'' then
                Inr (if v \<noteq> Null then (case to_int bi v of None \<Rightarrow> Null | Some i \<Rightarrow> i) else Null)
              else if ty = ''cast_float'' then
                Inr (if v \<noteq> Null then (case to_float bi v of None \<Rightarrow> Null | Some x \<Rightarrow> x) else Null)
              else if ty = ''cast_str'' then
                Inr (if v \<noteq> Null then TextV (to_str bi v) else Null)
              else if ty = ''uppercase'' then
                Inr (if v \<noteq> Null then TextV (map upper_char (to_str bi v)) else Null)
              else if ty = ''lowercase'' then
                Inr (if v \<noteq> Null then TextV (lower (to_str bi v)) else Null)
              else if ty = ''trim'' then
                Inr (if v \<noteq> Null then TextV (strip (to_str bi v)) else Null)
              else if ty = ''null_to_default'' then
                Inr (if v \<noteq> Null then v
                     else (case tr_sql_expression tr of None \<Rightarrow> Null | Some d \<Rightarrow> TextV d))
              else Inr v))"

text \<open>\<open>{t.source_column: t for t in transformations}\<close>.\<close>

definition transform_map :: "transformation_rule list \<Rightarrow> string \<Rightarrow> transformation_rule option" where
  "transform_map ts = map_of (rev (map (\<lambda>t. (tr_source_column t, t)) ts))"

text \<open>
  The loop over the source columns of one row, column \<open>i\<close> reading \<open>row[i + 1]\<close> (an
  \<open>IndexError\<close> when the row is too short): the values built so far and the list
  \<open>result.transformations_applied\<close>, which keeps what was added before an exception.
\<close>

fun row_values ::
  "builtins \<Rightarrow> (string \<Rightarrow> transformation_rule option) \<Rightarrow> sql_value list \<Rightarrow> nat \<Rightarrow>
   string list \<Rightarrow> sql_value list \<Rightarrow> string list \<Rightarrow> (py_error + sql_value list) \<times> string list" where
  "row_values bi tmap row i [] vals applied = (Inr vals, applied)"
| "row_values bi tmap row i (src_col # rest) vals applied =
     (if Suc i < length row then
        (case tmap src_col of
           None \<Rightarrow> row_values bi tmap row (Suc i) rest (vals @ [row ! Suc i]) applied
         | Some tr \<Rightarrow>
             (case apply_transformation bi (row ! Suc i) tr of
                Inl e \<Rightarrow> (Inl e, applied)
              | Inr v' \<Rightarrow>
                  row_values bi tmap row (Suc i) rest (vals @ [v'])
                    (if tr_description tr \<noteq> [] \<and> tr_description tr \<notin> set applied
                     then applied @ [tr_description tr] else applied)))
      else (Inl index_error, applied))"

text \<open>The statements of the \<open>try\<close> before the INSERT: \<open>rowid = row[0]\<close>, then the loop.\<close>

definition transformed_values ::
  "builtins \<Rightarrow> (string \<Rightarrow> transformation_rule option) \<Rightarrow> string list \<Rightarrow> sql_value list \<Rightarrow>
   string list \<Rightarrow> (py_error + sql_value list) \<times> string list" where
  "transformed_values bi tmap source_columns row applied =
     (if row = [] then (Inl index_error, applied)
      else row_values bi tmap row 0 source_columns [] applied)"

text \<open>A dict built from key-value pairs: a repeated key keeps its place and takes the later value.\<close>

fun dict_put :: "'k \<Rightarrow> 'v \<Rightarrow> ('k \<times> 'v) list \<Rightarrow> ('k \<times> 'v) list" where
  "dict_put k v [] = [(k, v)]"
| "dict_put k v ((k', v') # d) = (if k = k' then (k, v) # d else (k', v') # dict_put k v d)"

definition dict_of :: "('k \<times> 'v) list \<Rightarrow> ('k \<times> 'v) list" where
  "dict_of kvs = foldl (\<lambda>d (k, v). dict_put k v d) [] kvs"

subsection \<open>Migrating rows\<close>

text \<open>
  The constant arguments of \<open>_migrate_batch\<close>, and the state its loop changes: the result
  and the view of the target connection.
\<close>

record 'db batch_args =
  ba_builtins :: builtins
  ba_sqlite :: "'db sqlite"
  ba_source_db :: 'db
  ba_source_table :: string
  ba_target_table :: string
  ba_source_columns :: "string list"
  ba_target_columns :: "string list"
  ba_transformations :: "transformation_rule list"
  ba_batch_size :: int

type_synonym 'db batch_state = "migration_result \<times> 'db"

text \<open>
  The \<open>except\<close> block of the loop over the rows. It reads \<open>row[i+1]\<close> for every source
  column and \<open>row[0]\<close>: on a row that is too short the \<open>IndexError\<close> leaves the block, and
  with it \<open>_migrate_batch\<close>.
\<close>

definition make_failed_record :: "'db batch_args \<Rightarrow> sql_value list \<Rightarrow> py_error \<Rightarrow> failed_record" where
  "make_failed_record ba row e =
     \<lparr> fr_source_table = ba_source_table ba,
       fr_record_id = row ! 0,
       fr_record_data = dict_of (zip (ba_source_columns ba) (tl row)),
       fr_error_message = error_str e,
       fr_error_type = error_type_name e \<rparr>"

definition record_failure :: "'db batch_args \<Rightarrow> sql_value list \<Rightarrow> py_error \<Rightarrow> migration_result \<Rightarrow> migration_result" where
  "record_failure ba row e r =
     r\<lparr> failed_records := failed_records r @ [make_failed_record ba row e],
        records_failed := records_failed r + 1 \<rparr>"

definition handle_failure ::
  "'db batch_args \<Rightarrow> sql_value list \<Rightarrow> py_error \<Rightarrow> 'db batch_state \<Rightarrow>
   py_error \<times> 'db batch_state + 'db batch_state" where
  "handle_failure ba row e st =
     (case st of (r, tdb) \<Rightarrow>
        if length (ba_source_columns ba) < length row then Inr (record_failure ba row e r, tdb)
        else Inl (index_error, (r, tdb)))"

text \<open>The body of the loop over the rows of a batch, with its \<open>try\<close> and \<open>except\<close>.\<close>

definition migrate_row ::
  "'db batch_args \<Rightarrow> 'db batch_state \<Rightarrow> sql_value list \<Rightarrow>
   py_error \<times> 'db batch_state + 'db batch_state" where
  "migrate_row ba st row =
     (case st of (r, tdb) \<Rightarrow>
        (case transformed_values (ba_builtins ba) (transform_map (ba_transformations ba))
                (ba_source_columns ba) row (transformations_applied r) of
           (Inl e, applied) \<Rightarrow>
             handle_failure ba row e (r\<lparr> transformations_applied := applied \<rparr>, tdb)
         | (Inr vals, applied) \<Rightarrow>
             (case sq_execute (ba_sqlite ba) tdb
                     (insert_sql (ba_target_table ba) (ba_target_columns ba)) vals of
                Inl e \<Rightarrow> handle_failure ba row e (r\<lparr> transformations_applied := applied \<rparr>, tdb)
              | Inr tdb' \<Rightarrow>
                  Inr (r\<lparr> transformations_applied := applied,
                          records_migrated := records_migrated r + 1 \<rparr>, tdb'))))"

text \<open>The loop \<open>for row in rows\<close>: an exception that leaves the body leaves the loop.\<close>

fun migrate_rows ::
  "'db batch_args \<Rightarrow> 'db batch_state \<Rightarrow> sql_value list list \<Rightarrow>
   py_error \<times> 'db batch_state + 'db batch_state" where
  "migrate_rows ba st [] = Inr st"
| "migrate_rows ba st (row # rows) =
     (case migrate_row ba st row of
        Inl err \<Rightarrow> Inl err
      | Inr st' \<Rightarrow> migrate_rows ba st' rows)"

text \<open>
  \<open>_migrate_batch\<close>: the SELECT with its LIMIT and OFFSET may raise, which leaves the
  batch; otherwise the rows it gave are processed in order.
\<close>

definition fetch_batch :: "'db batch_args \<Rightarrow> int \<Rightarrow> py_error + sql_value list list" where
  "fetch_batch ba offset =
     sq_fetchall (ba_sqlite ba) (ba_source_db ba)
       (batch_query (ba_source_table ba) (ba_source_columns ba) (ba_batch_size ba) offset)"

definition migrate_batch ::
  "'db batch_args \<Rightarrow> int \<Rightarrow> 'db batch_state \<Rightarrow> py_error \<times> 'db batch_state + 'db batch_state" where
  "migrate_batch ba offset st =
     (case fetch_batch ba offset of
        Inl e \<Rightarrow> Inl (e, st)
      | Inr rows \<Rightarrow> migrate_rows ba st rows)"

text \<open>
  The \<open>while offset < total_records\<close> loop. It need not end (a batch size of 0 never
  advances the offset): \<open>None\<close> is the loop that runs forever.
\<close>

partial_function (option) batch_loop ::
  "'db batch_args \<Rightarrow> int \<Rightarrow> int \<Rightarrow> 'db batch_state \<Rightarrow>
   (py_error \<times> 'db batch_state + 'db batch_state) option" where
  "batch_loop ba total_records offset st =
     (if offset < total_records then
        (case migrate_batch ba offset st of
           Inl err \<Rightarrow> Some (Inl err)
         | Inr st' \<Rightarrow> batch_loop ba total_records (offset + ba_batch_size ba) st')
      else Some (Inr st))"

declare batch_loop.simps [code]

subsection \<open>\<open>migrate_table\<close>\<close>

text \<open>\<open>m.get('source_column', m.get('source', '').split('.')[-1])\<close>, and the same for the target.\<close>

definition last_segment :: "string \<Rightarrow> string" where
  "last_segment s = rev (takeWhile (\<lambda>c. c \<noteq> CHR ''.'') (rev s))"

definition source_column_of :: "column_mapping \<Rightarrow> string" where
  "source_column_of m =
     (case cmap_source_column m of
        Some c \<Rightarrow> c
      | None \<Rightarrow> last_segment (case cmap_source m of None \<Rightarrow> [] | Some x \<Rightarrow> x))"

definition target_column_of :: "column_mapping \<Rightarrow> string" where
  "target_column_of m =
     (case cmap_target_column m of
        Some c \<Rightarrow> c
      | None \<Rightarrow> last_segment (case cmap_target m of None \<Rightarrow> [] | Some x \<Rightarrow> x))"

definition initial_result :: "string \<Rightarrow> string \<Rightarrow> migration_result" where
  "initial_result source_table target_table =
     \<lparr> res_source_table = source_table, res_target_table = target_table,
       res_status = IN_PROGRESS, records_attempted = 0, records_migrated = 0,
       records_failed = 0, failed_records = [], res_error_message = None,
       transformations_applied = [] \<rparr>"

text \<open>The arguments that \<open>migrate_table\<close> passes to every call of \<open>_migrate_batch\<close>.\<close>

definition batch_args_of ::
  "builtins \<Rightarrow> 'db sqlite \<Rightarrow> 'db \<Rightarrow> string \<Rightarrow> string \<Rightarrow> column_mapping list \<Rightarrow>
   transformation_rule list \<Rightarrow> int \<Rightarrow> 'db batch_args" where
  "batch_args_of bi sq sdb source_table target_table column_mappings transformations batch_size =
     \<lparr> ba_builtins = bi, ba_sqlite = sq, ba_source_db = sdb,
       ba_source_table = source_table,
       ba_target_table = target_table,
       ba_source_columns = map source_column_of column_mappings,
       ba_target_columns = map target_column_of column_mappings,
       ba_transformations = transformations,
       ba_batch_size = batch_size \<rparr>"

text \<open>
  The body of the \<open>try\<close>: the exception that left it (if any), the result and the state,
  or \<open>None\<close> when the batch loop runs forever. The early \<open>return\<close> of a dry run leaves the
  body without an exception.
\<close>

definition try_body ::
  "builtins \<Rightarrow> string \<Rightarrow> string \<Rightarrow> column_mapping list \<Rightarrow> transformation_rule list \<Rightarrow>
   int \<Rightarrow> bool \<Rightarrow> migration_result \<Rightarrow> 'db exec_state \<Rightarrow>
   (py_error option \<times> migration_result \<times> 'db exec_state) option" where
  "try_body bi source_table target_table column_mappings transformations batch_size dry_run
            result s =
     (case connect s of
        (Some e, s1) \<Rightarrow> Some (Some e, result, s1)
      | (None, s1) \<Rightarrow>
          (case live_view (source_conn s1) of
             Inl e \<Rightarrow> Some (Some e, result, s1)
           | Inr sdb \<Rightarrow>
               (case sq_count (sqlite3 s1) sdb (count_query source_table) of
                  Inl e \<Rightarrow> Some (Some e, result, s1)
                | Inr total_records \<Rightarrow>
                    (let result1 = result\<lparr> records_attempted := total_records \<rparr>
                     in if dry_run then
                          Some (None, result1\<lparr> res_status := COMPLETED,
                                              records_migrated := total_records \<rparr>, s1)
                        else
                          (case live_view (target_conn s1) of
                             Inl e \<Rightarrow> Some (Some e, result1, s1)
                           | Inr tdb \<Rightarrow>
                               (case batch_loop
                                       (batch_args_of bi (sqlite3 s1) sdb source_table target_table
                                          column_mappings transformations batch_size)
                                       (int total_records) 0 (result1, tdb) of
                                  None \<Rightarrow> None
                                | Some (Inl (e, (r, tdb'))) \<Rightarrow>
                                    Some (Some e, r, set_target_view tdb' s1)
                                | Some (Inr (r, tdb')) \<Rightarrow>
                                    (case commit_target (set_target_view tdb' s1) of
                                       Inl e \<Rightarrow> Some (Some e, r, set_target_view tdb' s1)
                                     | Inr s2 \<Rightarrow>
                                         Some (None,
                                               r\<lparr> res_status := (if records_failed r = 0
                                                                  then COMPLETED else PARTIAL) \<rparr>,
                                               s2))))))))"

text \<open>The \<open>finally\<close> block.\<close>

definition finish :: "migration_result \<Rightarrow> 'db exec_state \<Rightarrow> 'db exec_state" where
  "finish r s = (disconnect s)\<lparr> results := results s @ [r] \<rparr>"

text \<open>
  \<open>migrate_table\<close>: the result it returns, or the exception that leaves it (a rollback
  that raises inside the \<open>except\<close> block), with the state after the \<open>finally\<close> block.
\<close>

definition migrate_table ::
  "builtins \<Rightarrow> string \<Rightarrow> string \<Rightarrow> column_mapping list \<Rightarrow> transformation_rule list \<Rightarrow>
   int \<Rightarrow> bool \<Rightarrow> 'db exec_state \<Rightarrow> ((py_error + migration_result) \<times> 'db exec_state) option" where
  "migrate_table bi source_table target_table column_mappings transformations batch_size dry_run s =
     (case try_body bi source_table target_table column_mappings transformations batch_size dry_run
             (initial_result source_table target_table) (s\<lparr> is_dry_run := dry_run \<rparr>) of
        None \<Rightarrow> None
      | Some (None, r, s1) \<Rightarrow> Some (Inr r, finish r s1)
      | Some (Some e, r, s1) \<Rightarrow>
          (let r' = r\<lparr> res_status := FAILED, res_error_message := Some (error_str e) \<rparr>
           in case target_conn s1 of
                None \<Rightarrow> Some (Inr r', finish r' s1)
              | Some c \<Rightarrow>
                  (case rollback_target s1 of
                     Inl e2 \<Rightarrow> Some (Inl e2, finish r' s1)
                   | Inr s2 \<Rightarrow> Some (Inr r', finish r' s2))))"

subsection \<open>\<open>rollback_migration\<close> and \<open>detect_split_candidates\<close>\<close>

definition rollback_migration :: "string \<Rightarrow> 'db exec_state \<Rightarrow> bool \<times> 'db exec_state" where
  "rollback_migration target_table s =
     (case connect s of
        (Some e, s1) \<Rightarrow> (False, disconnect s1)
      | (None, s1) \<Rightarrow>
          (case live_view (target_conn s1) of
             Inl e \<Rightarrow> (False, disconnect s1)
           | Inr tdb \<Rightarrow>
               (case sq_execute (sqlite3 s1) tdb (delete_sql target_table) [] of
                  Inl e \<Rightarrow> (False, disconnect s1)
                | Inr tdb' \<Rightarrow>
                    (case commit_target (set_target_view tdb' s1) of
                       Inl e \<Rightarrow> (False, disconnect (set_target_view tdb' s1))
                     | Inr s2 \<Rightarrow> (True, disconnect s2)))))"

text \<open>\<open>str.split(delim)\<close> for a delimiter of one character.\<close>

fun split_char :: "char \<Rightarrow> string \<Rightarrow> string list" where
  "split_char d [] = [[]]"
| "split_char d (c # cs) =
     (if c = d then [] # split_char d cs
      else (case split_char d cs of [] \<Rightarrow> [[c]] | w # ws \<Rightarrow> (c # w) # ws))"

record split_candidate =
  sc_column :: string
  sc_recommended_delimiter :: char
  sc_average_parts :: real
  sc_sample :: "string list"

text \<open>\<open>max(delimiter_counts, key=delimiter_counts.get)\<close>: the first key of greatest count.\<close>

fun best_delimiter :: "(char \<times> nat) \<Rightarrow> (char \<times> nat) list \<Rightarrow> char" where
  "best_delimiter best [] = fst best"
| "best_delimiter best (x # xs) =
     (if snd x > snd best then best_delimiter x xs else best_delimiter best xs)"

text \<open>
  The body of the \<open>try\<close> of \<open>detect_split_candidates\<close>; \<open>row[0]\<close> of a row without
  columns is an \<open>IndexError\<close>.
\<close>

definition detect_body ::
  "builtins \<Rightarrow> string \<Rightarrow> string \<Rightarrow> 'db exec_state \<Rightarrow> py_error + split_candidate option" where
  "detect_body bi source_table column s =
     (case live_view (source_conn s) of
        Inl e \<Rightarrow> Inl e
      | Inr sdb \<Rightarrow>
          (case sq_fetchall (sqlite3 s) sdb (samples_query source_table column) of
             Inl e \<Rightarrow> Inl e
           | Inr rows \<Rightarrow>
               if list_ex (\<lambda>row. row = []) rows then Inl index_error
               else
               (let samples = map hd rows
                in if samples = [] then Inr None
                   else
                     (let delimiter_counts =
                            filter (\<lambda>(d, n). real n > real (length samples) * 0.5)
                              (map (\<lambda>d. (d, length (filter (\<lambda>v. d \<in> set (to_str bi v)) samples)))
                                 [CHR '' '', CHR '','', CHR '';'', CHR ''|'', CHR ''-'', CHR ''_''])
                      in case delimiter_counts of
                           [] \<Rightarrow> Inr None
                         | x # xs \<Rightarrow>
                             (let best_delim = best_delimiter x xs;
                                  avg_parts =
                                    real (sum_list (map (\<lambda>v. length (split_char best_delim (to_str bi v)))
                                                      samples))
                                      / real (length samples)
                              in Inr (Some \<lparr> sc_column = column,
                                             sc_recommended_delimiter = best_delim,
                                             sc_average_parts = round1 bi avg_parts,
                                             sc_sample = split_char best_delim
                                                           (to_str bi (hd samples)) \<rparr>))))))"

text \<open>
  \<open>detect_split_candidates\<close>: \<open>connect\<close> is called before the \<open>try\<close>, so an exception of
  \<open>connect\<close> leaves the method at once; the \<open>finally\<close> block covers the rest.
\<close>

definition detect_split_candidates ::
  "builtins \<Rightarrow> string \<Rightarrow> string \<Rightarrow> 'db exec_state \<Rightarrow>
   (py_error + split_candidate option) \<times> 'db exec_state" where
  "detect_split_candidates bi source_table column s =
     (case connect s of
        (Some e, s1) \<Rightarrow> (Inl e, s1)
      | (None, s1) \<Rightarrow> (detect_body bi source_table column s1, disconnect s1))"

subsection \<open>Auxiliary notions for the properties\<close>

text \<open>A connection field that holds no open connection, and a state without open connections.\<close>

definition conn_closed :: "'db connection option \<Rightarrow> bool" where
  "conn_closed c = (case c of None \<Rightarrow> True | Some k \<Rightarrow> \<not> conn_open k)"

definition no_open_connection :: "'db exec_state \<Rightarrow> bool" where
  "no_open_connection s = (conn_closed (source_conn s) \<and> conn_closed (target_conn s))"

text \<open>The number of open connections that the two fields hold.\<close>

definition open_fields :: "'db exec_state \<Rightarrow> nat" where
  "open_fields s = (if conn_closed (source_conn s) then 0 else 1)
                     + (if conn_closed (target_conn s) then 0 else 1)"

text \<open>The state after a \<open>connect\<close> that opened both files.\<close>

definition connected :: "'db \<Rightarrow> 'db \<Rightarrow> 'db exec_state \<Rightarrow> 'db exec_state" where
  "connected sdb tdb s =
     s\<lparr> source_conn := Some \<lparr> conn_open = True, conn_view = sdb \<rparr>,
        target_conn := Some \<lparr> conn_open = True, conn_view = tdb \<rparr>,
        open_handles := open_handles s + 2 \<rparr>"

text \<open>The result as the \<open>except\<close> block of \<open>migrate_table\<close> leaves it.\<close>

definition failed_with :: "py_error \<Rightarrow> migration_result \<Rightarrow> migration_result" where
  "failed_with e r = r\<lparr> res_status := FAILED, res_error_message := Some (error_str e) \<rparr>"

subsection \<open>Example inputs\<close>

text \<open>
  The example databases hold tables: the columns with their NOT NULL flag, and the rows
  with their rowid.
\<close>

record sql_table =
  tbl_columns :: "(string \<times> bool) list"
  tbl_rows :: "(int \<times> sql_value list) list"

type_synonym database = "(string \<times> sql_table) list"

definition example_builtins :: builtins where
  "example_builtins =
     \<lparr> to_int = (\<lambda>v. case v of IntV i \<Rightarrow> Some (IntV i) | _ \<Rightarrow> None),
       to_float = (\<lambda>v. case v of RealV x \<Rightarrow> Some (RealV x) | _ \<Rightarrow> None),
       to_str = (\<lambda>v. case v of TextV t \<Rightarrow> t | _ \<Rightarrow> ''?''),
       round1 = (\<lambda>x. x) \<rparr>"

text \<open>
  The source file: in \<open>cust_info\<close> the second customer has no name; in \<open>cust_archive\<close> the
  name of the third is not UTF-8; the third table has the name \<open>order\<close>.
\<close>

definition example_source_db :: database where
  "example_source_db =
     [(''cust_info'',
       \<lparr> tbl_columns = [(''cust_id'', True), (''fname'', False)],
         tbl_rows = [(1, [IntV 1, TextV ''John Doe'']),
                     (2, [IntV 2, Null]),
                     (3, [IntV 3, TextV ''Bob Ray''])] \<rparr>),
      (''cust_archive'',
       \<lparr> tbl_columns = [(''cust_id'', True), (''fname'', False)],
         tbl_rows = [(1, [IntV 1, TextV ''Ann Lee'']),
                     (2, [IntV 2, TextV ''Cy Young'']),
                     (3, [IntV 3, TextV [CHR 0xFF]])] \<rparr>),
      (''order'',
       \<lparr> tbl_columns = [(''id'', True)],
         tbl_rows = [(1, [IntV 10]), (2, [IntV 20]), (3, [IntV 30])] \<rparr>)]"

definition example_target_db :: database where
  "example_target_db =
     [(''customers'',
       \<lparr> tbl_columns = [(''customer_id'', True), (''first_name'', True)],
         tbl_rows = [] \<rparr>),
      (''orders'',
       \<lparr> tbl_columns = [(''id'', True)],
         tbl_rows = [] \<rparr>)]"

text \<open>
  What SQLite answers to the statements that the examples run, on tables like these:
  the count of a table, the rows of a table from an offset up to a limit (text that is
  not UTF-8 cannot be fetched), and an INSERT that checks the NOT NULL columns.
\<close>

definition no_such_table :: "string \<Rightarrow> py_error" where
  "no_such_table t = OperationalError (''no such table: '' @ t)"

definition decode_error :: py_error where
  "decode_error =
     OperationalError (''Could not decode to UTF-8 column '' @ [CHR 0x27] @ ''fname'' @ [CHR 0x27]
                       @ '' with text '' @ [CHR 0x27, CHR 0xEF, CHR 0xBF, CHR 0xBD, CHR 0x27])"

definition keyword_error :: "string \<Rightarrow> py_error" where
  "keyword_error w = OperationalError (''near '' @ quoted w @ '': syntax error'')"

definition other_statement :: py_error where
  "other_statement = OperationalError ''not a statement of the examples''"

definition example_count :: "database \<Rightarrow> string \<Rightarrow> py_error + nat" where
  "example_count db t =
     (case map_of db t of
        None \<Rightarrow> Inl (no_such_table t)
      | Some tb \<Rightarrow> Inr (length (tbl_rows tb)))"

definition column_value :: "sql_table \<Rightarrow> sql_value list \<Rightarrow> string \<Rightarrow> sql_value" where
  "column_value tb vals c =
     (case map_of (zip (map fst (tbl_columns tb)) vals) c of None \<Rightarrow> Null | Some v \<Rightarrow> v)"

definition undecodable :: "sql_value \<Rightarrow> bool" where
  "undecodable v = (case v of TextV t \<Rightarrow> CHR 0xFF \<in> set t | _ \<Rightarrow> False)"

definition example_rows ::
  "database \<Rightarrow> string \<Rightarrow> string list \<Rightarrow> nat \<Rightarrow> nat \<Rightarrow> py_error + sql_value list list" where
  "example_rows db t cols l off =
     (case map_of db t of
        None \<Rightarrow> Inl (no_such_table t)
      | Some tb \<Rightarrow>
          (let rows = take l (drop off
                        (map (\<lambda>(rid, vals). IntV rid # map (column_value tb vals) cols)
                           (tbl_rows tb)))
           in if list_ex (list_ex undecodable) rows then Inl decode_error else Inr rows))"

definition db_update :: "string \<Rightarrow> sql_table \<Rightarrow> database \<Rightarrow> database" where
  "db_update t tb db = map (\<lambda>(n, x). if n = t then (n, tb) else (n, x)) db"

definition next_rowid :: "(int \<times> sql_value list) list \<Rightarrow> int" where
  "next_rowid rows = fold max (map fst rows) 0 + 1"

definition example_insert ::
  "database \<Rightarrow> string \<Rightarrow> string list \<Rightarrow> sql_value list \<Rightarrow> py_error + database" where
  "example_insert db t cols vals =
     (case map_of db t of
        None \<Rightarrow> Inl (no_such_table t)
      | Some tb \<Rightarrow>
          (let new_row = map (\<lambda>(c, nn). case map_of (zip cols vals) c of
                                            None \<Rightarrow> Null | Some v \<Rightarrow> v)
                           (tbl_columns tb)
           in case find (\<lambda>((c, nn), v). nn \<and> v = Null) (zip (tbl_columns tb) new_row) of
                Some ((c, nn), v) \<Rightarrow>
                  Inl (IntegrityError (''NOT NULL constraint failed: '' @ t @ ''.'' @ c))
              | None \<Rightarrow>
                  Inr (db_update t
                         (tb\<lparr> tbl_rows := tbl_rows tb @ [(next_rowid (tbl_rows tb), new_row)] \<rparr>)
                         db)))"

definition example_delete :: "database \<Rightarrow> string \<Rightarrow> py_error + database" where
  "example_delete db t =
     (case map_of db t of
        None \<Rightarrow> Inl (no_such_table t)
      | Some tb \<Rightarrow> Inr (db_update t (tb\<lparr> tbl_rows := [] \<rparr>) db))"

definition example_sqlite :: "database sqlite" where
  \<open>example_sqlite =
     \<lparr> sq_count = (\<lambda>db text.
         if text = ''SELECT COUNT('' @ ''*) FROM cust_info'' then example_count db ''cust_info''
         else if text = ''SELECT COUNT('' @ ''*) FROM cust_archive'' then
           example_count db ''cust_archive''
         else if text = ''SELECT COUNT('' @ ''*) FROM order'' then Inl (keyword_error ''order'')
         else Inl other_statement),
       sq_fetchall = (\<lambda>db text.
         if text = ''SELECT rowid, "cust_id", "fname" FROM "cust_info" LIMIT 2 OFFSET 0'' then
           example_rows db ''cust_info'' [''cust_id'', ''fname''] 2 0
         else if text = ''SELECT rowid, "cust_id", "fname" FROM "cust_info" LIMIT 2 OFFSET 2'' then
           example_rows db ''cust_info'' [''cust_id'', ''fname''] 2 2
         else if text = ''SELECT rowid, "cust_id", "fname" FROM "cust_archive" LIMIT 2 OFFSET 0'' then
           example_rows db ''cust_archive'' [''cust_id'', ''fname''] 2 0
         else if text = ''SELECT rowid, "cust_id", "fname" FROM "cust_archive" LIMIT 2 OFFSET 2'' then
           example_rows db ''cust_archive'' [''cust_id'', ''fname''] 2 2
         else if text = ''SELECT rowid, "id" FROM "order" LIMIT 2 OFFSET 0'' then
           example_rows db ''order'' [''id''] 2 0
         else if text = ''SELECT rowid, "id" FROM "order" LIMIT 2 OFFSET 2'' then
           example_rows db ''order'' [''id''] 2 2
         else Inl other_statement),
       sq_execute = (\<lambda>db text parameters.
         if text = ''INSERT INTO "customers" ("customer_id", "first_name") VALUES (?, ?)'' then
           example_insert db ''customers'' [''customer_id'', ''first_name''] parameters
         else if text = ''INSERT INTO "orders" ("id") VALUES (?)'' then
           example_insert db ''orders'' [''id''] parameters
         else if text = ''DELETE FROM "customers"'' then example_delete db ''customers''
         else Inl other_statement) \<rparr>\<close>

definition example_mappings :: "column_mapping list" where
  "example_mappings =
     [\<lparr> cmap_source_column = Some ''cust_id'', cmap_source = None,
        cmap_target_column = Some ''customer_id'', cmap_target = None \<rparr>,
      \<lparr> cmap_source_column = None, cmap_source = Some ''cust_info.fname'',
        cmap_target_column = None, cmap_target = Some ''customers.first_name'' \<rparr>]"

definition example_order_mappings :: "column_mapping list" where
  "example_order_mappings =
     [\<lparr> cmap_source_column = Some ''id'', cmap_source = None,
        cmap_target_column = Some ''id'', cmap_target = None \<rparr>]"

definition example_state :: "database exec_state" where
  "example_state =
     \<lparr> source_conn = None, target_conn = None, results = [], is_dry_run = False,
       source_disk = Some example_source_db, target_disk = Some example_target_db,
       open_handles = 0, target_log = [], sqlite3 = example_sqlite \<rparr>"

text \<open>The same executor with a target path that cannot be opened.\<close>

definition example_state_no_target :: "database exec_state" where
  "example_state_no_target = example_state\<lparr> target_disk := None \<rparr>"

section \<open>The REST layers\<close>

text \<open>
  An endpoint gives a response body, raises a FastAPI \<open>HTTPException\<close> with a status
  code and a detail, or lets another exception escape. JSON bodies that the endpoints
  only pass on are strings.
\<close>

datatype 'a http_result = Ok 'a | HTTPException nat string | Raised py_error

type_synonym json = string

subsection \<open>PS2: api.py\<close>

text \<open>\<open>get_unmapped_columns\<close> and its two explanations (hybrid\_ai\_engine.py).\<close>

record unmapped_column =
  uc_table :: string
  uc_column :: string
  uc_reason :: string

record unmapped =
  un_source :: "unmapped_column list"
  un_target :: "unmapped_column list"

definition explain_unmapped_source :: "string \<Rightarrow> string" where
  "explain_unmapped_source col =
     (let col_lower = lower col
      in if contains_any col_lower [''created'', ''updated'', ''modified'', ''_at'', ''_by'']
         then ''This appears to be an audit/tracking column not present in target schema''
         else if contains_any col_lower [''old_'', ''legacy_'', ''deprecated'']
         then ''This appears to be a legacy column that has been retired''
         else if contains_any col_lower [''temp_'', ''tmp_'', ''backup_'']
         then ''This appears to be a temporary/backup column not needed in target''
         else ''No sufficiently similar column found in target schema'')"

definition explain_unmapped_target :: "string \<Rightarrow> string" where
  "explain_unmapped_target col =
     (let col_lower = lower col
      in if contains_any col_lower [''created'', ''updated'', ''modified'', ''_at'']
         then ''This is likely an auto-generated audit column''
         else if contains col_lower ''id'' \<and> suffix ''id'' col_lower
         then ''This appears to be a new identifier that will be auto-generated''
         else ''This is a new column in the target schema - may need default value or manual mapping'')"

definition get_unmapped_columns :: "schema \<Rightarrow> schema \<Rightarrow> match_result list \<Rightarrow> unmapped" where
  "get_unmapped_columns source_schema target_schema mappings =
     (let mapped_sources = set (map (\<lambda>m. (mr_source_table m, mr_source_column m)) mappings);
          mapped_targets = set (map (\<lambda>m. (mr_target_table m, mr_target_column m)) mappings)
      in \<lparr> un_source =
             concat (map (\<lambda>(table, columns).
                      map (\<lambda>(col, ty). \<lparr> uc_table = table, uc_column = col,
                                          uc_reason = explain_unmapped_source col \<rparr>)
                        (filter (\<lambda>(col, ty). (table, col) \<notin> mapped_sources) columns))
                    source_schema),
           un_target =
             concat (map (\<lambda>(table, columns).
                      map (\<lambda>(col, ty). \<lparr> uc_table = table, uc_column = col,
                                          uc_reason = explain_unmapped_target col \<rparr>)
                        (filter (\<lambda>(col, ty). (table, col) \<notin> mapped_targets) columns))
                    target_schema) \<rparr>)"

text \<open>
  A session of the \<open>sessions\<close> dict. A key that is absent or holds \<open>None\<close> is \<open>None\<close>. The
  stored schemas list the columns of each table as (name, type) pairs.
\<close>

record session =
  ss_source_path :: string
  ss_target_path :: string
  ss_source_schema :: schema
  ss_target_schema :: schema
  ss_mappings :: "match_result list option"
  ss_validation :: "json option"
  ss_stats :: "json option"
  ss_unmapped :: "unmapped option"
  ss_migration_result :: "json option"
  ss_created_at :: string

text \<open>The global state of the module: \<open>sessions\<close> and \<open>engine\<close>.\<close>

record api_state =
  sessions :: "string \<rightharpoonup> session"
  api_engine :: "engine option"

text \<open>
  What the endpoints call outside this development: the engine that \<open>create_engine\<close>
  builds, the statistics of a matching, the migration and validation of a session on its
  SQLite files (validation, migration result and response body, or an exception), and the
  response bodies of the read-only endpoints.
\<close>

record api_env =
  env_create_engine :: engine
  env_stats :: "match_result list \<Rightarrow> json"
  env_analysis_body :: "string \<Rightarrow> nat \<Rightarrow> json \<Rightarrow> nat \<Rightarrow> nat \<Rightarrow> bool \<Rightarrow> json"
  env_migrate_and_validate :: "session \<Rightarrow> match_result list \<Rightarrow> py_error + (json \<times> json \<times> json)"
  env_mapping_report_body :: "string \<Rightarrow> session \<Rightarrow> match_result list \<Rightarrow> json"
  env_validation_report_body :: "string \<Rightarrow> session \<Rightarrow> json \<Rightarrow> json"
  env_visualization_body :: "string \<Rightarrow> session \<Rightarrow> match_result list \<Rightarrow> json"
  env_explain_body :: "string \<Rightarrow> session \<Rightarrow> match_result list \<Rightarrow> json"

definition session_not_found :: "'a http_result" where
  "session_not_found = HTTPException 404 ''Session not found''"

text \<open>\<open>get_engine\<close>.\<close>

definition get_engine :: "api_env \<Rightarrow> api_state \<Rightarrow> engine \<times> api_state" where
  "get_engine env st =
     (case api_engine st of
        None \<Rightarrow> (env_create_engine env, st\<lparr> api_engine := Some (env_create_engine env) \<rparr>)
      | Some e \<Rightarrow> (e, st))"

text \<open>\<open>POST /api/analyze\<close>.\<close>

definition analyze_schemas :: "api_env \<Rightarrow> string \<Rightarrow> real \<Rightarrow> api_state \<Rightarrow> json http_result \<times> api_state" where
  "analyze_schemas env session_id threshold st =
     (case sessions st session_id of
        None \<Rightarrow> (session_not_found, st)
      | Some session \<Rightarrow>
          (case get_engine env st of
             (ai_engine, st1) \<Rightarrow>
               (let source_schema = map (\<lambda>(table, cols). (table, dict_of cols))
                                      (ss_source_schema session);
                    target_schema = map (\<lambda>(table, cols). (table, dict_of cols))
                                      (ss_target_schema session);
                    mappings = match_columns ai_engine source_schema target_schema threshold;
                    stats = env_stats env mappings;
                    unm = get_unmapped_columns source_schema target_schema mappings;
                    session' = session\<lparr> ss_mappings := Some mappings, ss_stats := Some stats,
                                         ss_unmapped := Some unm \<rparr>
                in (Ok (env_analysis_body env session_id (length mappings) stats
                          (length (un_source unm)) (length (un_target unm))
                          (gemini_model ai_engine)),
                    st1\<lparr> sessions := (sessions st1)(session_id \<mapsto> session') \<rparr>))))"

text \<open>\<open>GET /api/mapping-report/{session_id}\<close>.\<close>

definition get_mapping_report :: "api_env \<Rightarrow> string \<Rightarrow> api_state \<Rightarrow> json http_result \<times> api_state" where
  "get_mapping_report env session_id st =
     (case sessions st session_id of
        None \<Rightarrow> (session_not_found, st)
      | Some session \<Rightarrow>
          (case ss_mappings session of
             None \<Rightarrow> (HTTPException 400 ''Analysis not run yet'', st)
           | Some mappings \<Rightarrow> (Ok (env_mapping_report_body env session_id session mappings), st)))"

text \<open>\<open>POST /api/migrate\<close>.\<close>

definition execute_migration :: "api_env \<Rightarrow> string \<Rightarrow> api_state \<Rightarrow> json http_result \<times> api_state" where
  "execute_migration env session_id st =
     (case sessions st session_id of
        None \<Rightarrow> (session_not_found, st)
      | Some session \<Rightarrow>
          (case ss_mappings session of
             None \<Rightarrow> (HTTPException 400 ''Analysis not run yet'', st)
           | Some mappings \<Rightarrow>
               (case env_migrate_and_validate env session mappings of
                  Inl e \<Rightarrow> (Raised e, st)
                | Inr (validation, migration_result, body) \<Rightarrow>
                    (Ok body,
                     st\<lparr> sessions := (sessions st)(session_id \<mapsto>
                            session\<lparr> ss_validation := Some validation,
                                     ss_migration_result := Some migration_result \<rparr>) \<rparr>))))"

text \<open>\<open>GET /api/validation-report/{session_id}\<close>.\<close>

definition get_validation_report :: "api_env \<Rightarrow> string \<Rightarrow> api_state \<Rightarrow> json http_result \<times> api_state" where
  "get_validation_report env session_id st =
     (case sessions st session_id of
        None \<Rightarrow> (session_not_found, st)
      | Some session \<Rightarrow>
          (case ss_validation session of
             None \<Rightarrow> (HTTPException 400 ''Migration not executed yet'', st)
           | Some validation \<Rightarrow>
               (Ok (env_validation_report_body env session_id session validation), st)))"

text \<open>\<open>GET /api/visualization/{session_id}\<close>.\<close>

definition get_visualization_data :: "api_env \<Rightarrow> string \<Rightarrow> api_state \<Rightarrow> json http_result \<times> api_state" where
  "get_visualization_data env session_id st =
     (case sessions st session_id of
        None \<Rightarrow> (session_not_found, st)
      | Some session \<Rightarrow>
          (case ss_mappings session of
             None \<Rightarrow> (HTTPException 400 ''Analysis not run yet'', st)
           | Some mappings \<Rightarrow> (Ok (env_visualization_body env session_id session mappings), st)))"

text \<open>\<open>GET /api/explain/{session_id}\<close>.\<close>

definition get_explainability_report :: "api_env \<Rightarrow> string \<Rightarrow> api_state \<Rightarrow> json http_result \<times> api_state" where
  "get_explainability_report env session_id st =
     (case sessions st session_id of
        None \<Rightarrow> (session_not_found, st)
      | Some session \<Rightarrow>
          (case ss_mappings session of
             None \<Rightarrow> (HTTPException 400 ''Analysis not run yet'', st)
           | Some mappings \<Rightarrow> (Ok (env_explain_body env session_id session mappings), st)))"

text \<open>Example inputs: a state with one session that has not been analysed.\<close>

definition example_session :: session where
  "example_session =
     \<lparr> ss_source_path = ''/tmp/dataforge/20240101_120000/source.db'',
       ss_target_path = ''/tmp/dataforge/20240101_120000/target.db'',
       ss_source_schema = example_source, ss_target_schema = example_target,
       ss_mappings = None, ss_validation = None, ss_stats = None, ss_unmapped = None,
       ss_migration_result = None, ss_created_at = ''2024-01-01T12:00:00'' \<rparr>"

definition example_api_state :: api_state where
  "example_api_state =
     \<lparr> sessions = [''20240101_120000'' \<mapsto> example_session], api_engine = None \<rparr>"

definition example_api_env :: api_env where
  "example_api_env =
     \<lparr> env_create_engine = example_engine,
       env_stats = (\<lambda>ms. ''{}''),
       env_analysis_body = (\<lambda>sid n stats us ut g. ''{}''),
       env_migrate_and_validate = (\<lambda>s ms. Inl (OperationalError ''no such table'')),
       env_mapping_report_body = (\<lambda>sid s ms. ''{}''),
       env_validation_report_body = (\<lambda>sid s v. ''{}''),
       env_visualization_body = (\<lambda>sid s ms. ''{}''),
       env_explain_body = (\<lambda>sid s ms. ''{}'') \<rparr>"

subsection \<open>PS1: core/api.py\<close>

text \<open>
  The steps of the \<open>/verify\<close> pipeline and the ingestion of \<open>/upload-source\<close> are calls
  into the other modules and their models; each gives its value or raises.
\<close>

record pipeline =
  atomize_claims :: "string \<Rightarrow> py_error + string list"
  verify_claims :: "string list \<Rightarrow> py_error + document_result"
  annotate_text_with_citations :: "string \<Rightarrow> claim_result list \<Rightarrow> py_error + json \<times> json"
  generate_correction_report :: "claim_result list \<Rightarrow> py_error + json"
  generate_html_annotated_text :: "json \<times> json \<Rightarrow> py_error + string"
  ingest_pdf :: "string \<Rightarrow> string \<Rightarrow> py_error + nat"

text \<open>The response of \<open>/verify\<close> and an entry of the \<open>jobs\<close> dict.\<close>

record verification_response =
  vr_job_id :: string
  vr_status :: string
  vr_verification :: document_result
  vr_annotated_html :: string
  vr_citations :: json
  vr_corrections :: json

record job =
  job_status :: string
  job_created_at :: string
  job_llm_text :: string
  job_error :: "string option"
  job_response :: "verification_response option"

text \<open>
  The body of the \<open>try\<close> of \<open>verify_text\<close>: the five steps in order; the first exception
  ends it. An annotation is the pair of the annotated text and its citations.
\<close>

definition verify_steps :: "pipeline \<Rightarrow> string \<Rightarrow> string \<Rightarrow> py_error + verification_response" where
  "verify_steps p job_id llm_text =
     (case atomize_claims p llm_text of
        Inl e \<Rightarrow> Inl e
      | Inr claims \<Rightarrow>
          (case verify_claims p claims of
             Inl e \<Rightarrow> Inl e
           | Inr verification_results \<Rightarrow>
               (case annotate_text_with_citations p llm_text (dr_claims verification_results) of
                  Inl e \<Rightarrow> Inl e
                | Inr annotated_data \<Rightarrow>
                    (case generate_correction_report p (dr_claims verification_results) of
                       Inl e \<Rightarrow> Inl e
                     | Inr corrections \<Rightarrow>
                         (case generate_html_annotated_text p annotated_data of
                            Inl e \<Rightarrow> Inl e
                          | Inr annotated_html \<Rightarrow>
                              Inr \<lparr> vr_job_id = job_id, vr_status = ''completed'',
                                    vr_verification = verification_results,
                                    vr_annotated_html = annotated_html,
                                    vr_citations = snd annotated_data,
                                    vr_corrections = corrections \<rparr>)))))"

text \<open>
  \<open>POST /verify\<close>. The job id (a fresh uuid prefix) and the time are arguments.
\<close>

definition verify_text ::
  "pipeline \<Rightarrow> string \<Rightarrow> string \<Rightarrow> string \<Rightarrow> (string \<rightharpoonup> job) \<Rightarrow>
   verification_response http_result \<times> (string \<rightharpoonup> job)" where
  "verify_text p job_id now llm_text jobs =
     (let processing = \<lparr> job_status = ''processing'', job_created_at = now,
                          job_llm_text = llm_text, job_error = None, job_response = None \<rparr>;
          jobs1 = jobs(job_id \<mapsto> processing)
      in case verify_steps p job_id llm_text of
           Inr response \<Rightarrow>
             (Ok response,
              jobs1(job_id \<mapsto> processing\<lparr> job_status := ''completed'',
                                            job_response := Some response \<rparr>))
         | Inl e \<Rightarrow>
             (HTTPException 500 (''Verification failed: '' @ error_str e),
              jobs1(job_id \<mapsto> processing\<lparr> job_status := ''failed'',
                                            job_error := Some (error_str e) \<rparr>)))"

text \<open>
  \<open>POST /upload-source\<close>. The state is the set of temporary files; writing the upload
  happens before the \<open>try\<close> and may raise (\<open>write_error\<close>). The \<open>finally\<close> block removes
  the temporary file.
\<close>

record upload_ok =
  up_filename :: string
  up_chunks_ingested :: nat

definition upload_source_document ::
  "pipeline \<Rightarrow> string \<Rightarrow> py_error option \<Rightarrow> string set \<Rightarrow> upload_ok http_result \<times> string set" where
  "upload_source_document p filename write_error files =
     (if \<not> suffix ''.pdf'' filename then
        (HTTPException 400 ''Only PDF files are supported'', files)
      else
        (let temp_path = ''temp_'' @ filename
         in case write_error of
              Some e \<Rightarrow> (Raised e, files)
            | None \<Rightarrow>
                (case ingest_pdf p temp_path filename of
                   Inr num_chunks \<Rightarrow>
                     (Ok \<lparr> up_filename = filename, up_chunks_ingested = num_chunks \<rparr>,
                      (insert temp_path files) - {temp_path})
                 | Inl e \<Rightarrow>
                     (HTTPException 500 (''Failed to ingest document: '' @ error_str e),
                      (insert temp_path files) - {temp_path}))))"

text \<open>Example inputs: a pipeline whose verification step and ingestion raise.\<close>

definition example_pipeline :: pipeline where
  "example_pipeline =
     \<lparr> atomize_claims = (\<lambda>t. Inr [t]),
       verify_claims = (\<lambda>cs. Inl (OtherError ''RuntimeError'' ''model not loaded'')),
       annotate_text_with_citations = (\<lambda>t cs. Inr (t, ''[]'')),
       generate_correction_report = (\<lambda>cs. Inr ''[]''),
       generate_html_annotated_text = (\<lambda>a. Inr (fst a)),
       ingest_pdf = (\<lambda>path doc. Inl (OtherError ''ValueError'' ''not a PDF'')) \<rparr>"

section \<open>Properties of the hybrid column-matching engine\<close>











section \<open>Properties of the claim verifier\<close>

lemma argmax_from_bound:
  "best < i \<Longrightarrow> argmax_from best bv i xs < i + length xs"
proof (induction xs arbitrary: best bv i)
  case Nil
  then show ?case by simp
next
  case (Cons x xs)
  have a: "argmax_from i x (Suc i) xs < Suc i + length xs"
    by (rule Cons.IH) simp
  have b: "argmax_from best bv (Suc i) xs < Suc i + length xs"
    by (rule Cons.IH) (use Cons.prems in simp)
  show ?case using a b by simp
qed

lemma argmax_less_length: "xs \<noteq> [] \<Longrightarrow> argmax xs < length xs"
  using argmax_from_bound [of 0 1] by (cases xs) (auto simp: argmax_def)

lemma length_softmax: "length (softmax xs) = length xs"
  by (simp add: softmax_def)

lemma sum_list_exp_nonneg: "0 \<le> sum_list (map exp (xs :: real list))"
  by (induction xs) (simp_all add: add_nonneg_nonneg)

lemma sum_list_exp_pos: "xs \<noteq> [] \<Longrightarrow> 0 < sum_list (map exp (xs :: real list))"
  using sum_list_exp_nonneg by (cases xs) (simp_all add: add_pos_nonneg)

lemma exp_le_sum_list: "x \<in> set xs \<Longrightarrow> exp x \<le> sum_list (map exp (xs :: real list))"
proof (induction xs)
  case Nil
  then show ?case by simp
next
  case (Cons y ys)
  have "0 \<le> sum_list (map exp ys)" by (rule sum_list_exp_nonneg)
  moreover have "0 < exp y" by simp
  ultimately show ?case using Cons by (auto simp: add_increasing add_increasing2)
qed

lemma softmax_nth_bounds:
  assumes "i < length xs"
  shows "0 < softmax xs ! i \<and> softmax xs ! i \<le> 1"
proof -
  have ne: "xs \<noteq> []" using assms by auto
  have pos: "0 < sum_list (map exp xs)" using ne by (rule sum_list_exp_pos)
  have le: "exp (xs ! i) \<le> sum_list (map exp xs)"
    using assms by (intro exp_le_sum_list) simp
  show ?thesis using assms pos le by (simp add: softmax_def)
qed

lemma label_map_dom: "dom LABEL_MAP = {0, 1, 2}"
  by (auto simp: LABEL_MAP_def split: if_splits)

lemma label_map_cases:
  "n < 3 \<Longrightarrow> (case LABEL_MAP n of None \<Rightarrow> ''unknown'' | Some l \<Rightarrow> l)
      \<in> {''contradiction'', ''neutral'', ''entailment''}"
proof -
  assume "n < 3"
  then consider "n = 0" | "n = 1" | "n = 2" by linarith
  then show ?thesis by cases (simp_all add: LABEL_MAP_def)
qed

lemma argmax_from_max:
  assumes "best < length pre" and "bv = pre ! best"
    and "\<forall>j < length pre. pre ! j \<le> bv" and "\<forall>j < best. pre ! j < bv"
  shows "argmax_from best bv (length pre) xs < length (pre @ xs) \<and>
         (\<forall>j < length (pre @ xs).
            (pre @ xs) ! j \<le> (pre @ xs) ! argmax_from best bv (length pre) xs) \<and>
         (\<forall>j < argmax_from best bv (length pre) xs.
            (pre @ xs) ! j < (pre @ xs) ! argmax_from best bv (length pre) xs)"
  using assms
proof (induction xs arbitrary: pre best bv)
  case Nil
  then show ?case by simp
next
  case (Cons x xs)
  have app: "(pre @ [x]) @ xs = pre @ x # xs" "length (pre @ [x]) = Suc (length pre)" by simp_all
  show ?case
  proof (cases "x > bv")
    case True
    have "length pre < length (pre @ [x])" "x = (pre @ [x]) ! length pre" by simp_all
    moreover have "\<forall>j < length (pre @ [x]). (pre @ [x]) ! j \<le> x"
      using Cons.prems(3) True by (auto simp: nth_append less_Suc_eq)
    moreover have "\<forall>j < length pre. (pre @ [x]) ! j < x"
      using Cons.prems(3) True by (auto simp: nth_append)
    ultimately show ?thesis
      using Cons.IH [of "length pre" "pre @ [x]" x] True unfolding app by simp
  next
    case False
    have "best < length (pre @ [x])" "bv = (pre @ [x]) ! best"
      using Cons.prems(1,2) by (simp_all add: nth_append)
    moreover have "\<forall>j < length (pre @ [x]). (pre @ [x]) ! j \<le> bv"
      using Cons.prems(3) False by (auto simp: nth_append less_Suc_eq)
    moreover have "\<forall>j < best. (pre @ [x]) ! j < bv"
      using Cons.prems(1,4) by (auto simp: nth_append)
    ultimately show ?thesis
      using Cons.IH [of best "pre @ [x]" bv] False unfolding app by simp
  qed
qed

text \<open>\<open>argmax\<close> gives the first index of a greatest entry.\<close>

lemma argmax_max:
  assumes "xs \<noteq> []"
  shows "argmax xs < length xs \<and> (\<forall>j < length xs. xs ! j \<le> xs ! argmax xs) \<and>
         (\<forall>j < argmax xs. xs ! j < xs ! argmax xs)"
proof -
  obtain x rest where xs: "xs = x # rest" using assms by (cases xs) auto
  from argmax_from_max [of 0 "[x]" x rest] show ?thesis by (simp add: xs argmax_def)
qed

lemma softmax_nth:
  "i < length xs \<Longrightarrow> softmax xs ! i = exp (xs ! i) / sum_list (map exp xs)"
  by (simp add: softmax_def)

lemma softmax_mono:
  assumes "i < length xs" and "j < length xs"
  shows "(softmax xs ! j \<le> softmax xs ! i) = (xs ! j \<le> xs ! i)"
    and "(softmax xs ! j < softmax xs ! i) = (xs ! j < xs ! i)"
proof -
  have "xs \<noteq> []" using assms by auto
  then have pos: "0 < sum_list (map exp xs)" by (rule sum_list_exp_pos)
  show "(softmax xs ! j \<le> softmax xs ! i) = (xs ! j \<le> xs ! i)"
    using assms pos by (simp add: softmax_nth divide_le_cancel)
  show "(softmax xs ! j < softmax xs ! i) = (xs ! j < xs ! i)"
    using assms pos by (simp add: softmax_nth divide_less_cancel)
qed

text \<open>
  C7. When the NLI model gives exactly three class logits, \<open>_run_nli\<close> predicts an index
  \<open>i\<close> in the domain of \<open>LABEL_MAP\<close>: the first class of greatest logit, which is the first
  class of greatest softmax probability. The label it returns is the entry of \<open>LABEL_MAP\<close>
  at \<open>i\<close>, that is contradiction for 0, neutral for 1 and entailment for 2, and never the
  fallback; the confidence it returns is the softmax probability of class \<open>i\<close>, the
  exponential of its logit over the sum of the three exponentials, and lies in (0, 1].
\<close>

theorem run_nli_three_classes:
  assumes "length (m premise hypothesis) = 3"
  shows "\<exists>i < 3.
           argmax (softmax (m premise hypothesis)) = i \<and> i \<in> dom LABEL_MAP \<and>
           LABEL_MAP i = Some (fst (run_nli m premise hypothesis)) \<and>
           fst (run_nli m premise hypothesis) = [''contradiction'', ''neutral'', ''entailment''] ! i \<and>
           fst (run_nli m premise hypothesis) \<noteq> ''unknown'' \<and>
           (\<forall>j < 3. m premise hypothesis ! j \<le> m premise hypothesis ! i) \<and>
           (\<forall>j < i. m premise hypothesis ! j < m premise hypothesis ! i) \<and>
           snd (run_nli m premise hypothesis) =
             exp (m premise hypothesis ! i) /
               (exp (m premise hypothesis ! 0) + exp (m premise hypothesis ! 1) +
                exp (m premise hypothesis ! 2)) \<and>
           (\<forall>j < 3. exp (m premise hypothesis ! j) /
                      (exp (m premise hypothesis ! 0) + exp (m premise hypothesis ! 1) +
                       exp (m premise hypothesis ! 2)) \<le> snd (run_nli m premise hypothesis)) \<and>
           0 < snd (run_nli m premise hypothesis) \<and> snd (run_nli m premise hypothesis) \<le> 1"
proof -
  let ?l = "m premise hypothesis"
  let ?p = "softmax ?l"
  let ?i = "argmax ?p"
  have len: "length ?p = 3" using assms by (simp add: length_softmax)
  then have ne: "?p \<noteq> []" by auto
  from argmax_max [OF ne] have idx: "?i < 3"
    and mx: "\<forall>j < 3. ?p ! j \<le> ?p ! ?i" and fst: "\<forall>j < ?i. ?p ! j < ?p ! ?i"
    using len by simp_all
  have il: "?i < length ?l" using idx assms by simp
  have d: "?i \<in> dom LABEL_MAP" using idx by (auto simp: label_map_dom)
  from idx consider "?i = 0" | "?i = 1" | "?i = 2" by linarith
  then have lab: "LABEL_MAP ?i = Some ([''contradiction'', ''neutral'', ''entailment''] ! ?i)"
    by cases (simp_all add: LABEL_MAP_def)
  have l: "fst (run_nli m premise hypothesis) = [''contradiction'', ''neutral'', ''entailment''] ! ?i"
    using lab by (simp add: run_nli_def Let_def)
  have "[''contradiction'', ''neutral'', ''entailment''] ! ?i
          \<in> {''contradiction'', ''neutral'', ''entailment''}"
    using idx by (auto simp: less_Suc_eq numeral_3_eq_3)
  then have u: "fst (run_nli m premise hypothesis) \<noteq> ''unknown''" using l by auto
  have lm: "\<forall>j < 3. ?l ! j \<le> ?l ! ?i"
    using mx softmax_mono(1) [OF il, of _] assms by auto
  have lf: "\<forall>j < ?i. ?l ! j < ?l ! ?i"
  proof (intro allI impI)
    fix j assume j: "j < ?i"
    then have "j < length ?l" using il by simp
    from softmax_mono(2) [OF il this] fst j show "?l ! j < ?l ! ?i" by simp
  qed
  have sm: "sum_list (map exp ?l) = exp (?l ! 0) + exp (?l ! 1) + exp (?l ! 2)"
  proof -
    obtain a b c where "?l = [a, b, c]"
      using assms by (auto simp: length_Suc_conv numeral_3_eq_3)
    then show ?thesis by simp
  qed
  have pj: "?p ! j = exp (?l ! j) / (exp (?l ! 0) + exp (?l ! 1) + exp (?l ! 2))" if "j < 3" for j
    using that assms softmax_nth [of j ?l] by (simp add: sm)
  have s: "snd (run_nli m premise hypothesis) = ?p ! ?i"
    by (simp add: run_nli_def Let_def)
  have sv: "snd (run_nli m premise hypothesis) =
              exp (?l ! ?i) / (exp (?l ! 0) + exp (?l ! 1) + exp (?l ! 2))"
    using s pj [OF idx] by simp
  have all: "\<forall>j < 3. exp (?l ! j) / (exp (?l ! 0) + exp (?l ! 1) + exp (?l ! 2))
                        \<le> snd (run_nli m premise hypothesis)"
    using mx pj s by simp
  have b: "0 < ?p ! ?i \<and> ?p ! ?i \<le> 1"
    using softmax_nth_bounds [of ?i ?l] il by simp
  show ?thesis
    using idx d lab l u lm lf sv all b s by (intro exI [of _ ?i]) simp
qed

theorem run_nli_three_classes_witness:
  "length ((\<lambda>p h. [0, 0, ln 8 :: real]) ''evidence'' ''claim'') = 3 \<and>
   run_nli (\<lambda>p h. [0, 0, ln 8]) ''evidence'' ''claim'' = (''entailment'', 4 / 5) \<and>
   argmax (softmax [0, 0, ln 8]) = 2 \<and>
   LABEL_MAP 2 = Some ''entailment'' \<and>
   exp (ln 8) / (exp 0 + exp 0 + exp (ln 8)) = (4 / 5 :: real) \<and>
   run_nli (\<lambda>p h. [1, 1, 1]) ''evidence'' ''claim'' = (''contradiction'', 1 / 3)"
proof -
  have h: "length ((\<lambda>p h. [0, 0, ln 8 :: real]) ''evidence'' ''claim'') = 3" by simp
  have e: "run_nli (\<lambda>p h. [0, 0, ln 8]) ''evidence'' ''claim'' = (''entailment'', 4 / 5)"
    by (simp add: run_nli_def softmax_def argmax_def LABEL_MAP_def)
  have t: "run_nli (\<lambda>p h. [1, 1, 1]) ''evidence'' ''claim'' = (''contradiction'', 1 / 3)"
    by (simp add: run_nli_def softmax_def argmax_def LABEL_MAP_def)
  from run_nli_three_classes [OF h] obtain i where
    i: "i < 3" "argmax (softmax [0, 0, ln 8 :: real]) = i"
       "LABEL_MAP i = Some (fst (run_nli (\<lambda>p h. [0, 0, ln 8]) ''evidence'' ''claim''))"
       "fst (run_nli (\<lambda>p h. [0, 0, ln 8]) ''evidence'' ''claim'') =
          [''contradiction'', ''neutral'', ''entailment''] ! i"
    by blast
  from i(1) consider "i = 0" | "i = 1" | "i = 2" by linarith
  then have i2: "i = 2" using i(4) e by cases simp_all
  have v: "exp (ln 8) / (exp 0 + exp 0 + exp (ln 8)) = (4 / 5 :: real)" by simp
  show ?thesis using h e t i(2,3) i2 v by simp
qed

lemma aggregate_status:
  "fst (aggregate_nli_results claim rs) \<in> {''supported'', ''contradicted'', ''unverifiable''}"
  by (simp add: aggregate_nli_results_def Let_def split: option.splits)

lemma verify_claim_status:
  "cr_status (verify_claim v claim k) \<in> {''supported'', ''contradicted'', ''unverifiable''}"
proof (cases "search_similar v claim k = []")
  case True
  then show ?thesis by (simp add: verify_claim_def)
next
  case False
  obtain s b rs where a: "aggregate_nli_results claim (map (nli_of_chunk v claim) (search_similar v claim k)) = (s, b, rs)"
    by (cases "aggregate_nli_results claim (map (nli_of_chunk v claim) (search_similar v claim k))")
  have "s \<in> {''supported'', ''contradicted'', ''unverifiable''}"
    using aggregate_status [of claim "map (nli_of_chunk v claim) (search_similar v claim k)"] a by simp
  then show ?thesis using False a by (simp add: verify_claim_def Let_def)
qed

lemma three_way_count:
  assumes "\<forall>r \<in> set rs. cr_status r \<in> {''supported'', ''contradicted'', ''unverifiable''}"
  shows "count_status ''supported'' rs + count_status ''contradicted'' rs
         + count_status ''unverifiable'' rs = length rs"
  using assms by (induction rs) (auto simp: count_status_def)

text \<open>
  C8. \<open>verify_document\<close> counts the supported, contradicted and unverifiable claims, which
  add up to the number of claims, and its trust score is 0 for no claims and otherwise
  supported / total minus half of contradicted / total, clamped to [0, 1].
\<close>

theorem verify_document_trust_score:
  "dr_claims (verify_document v claims) = map (\<lambda>c. verify_claim v c 5) claims \<and>
   dr_total (verify_document v claims) = length claims \<and>
   dr_supported (verify_document v claims) = count_status ''supported'' (dr_claims (verify_document v claims)) \<and>
   dr_contradicted (verify_document v claims) = count_status ''contradicted'' (dr_claims (verify_document v claims)) \<and>
   dr_unverifiable (verify_document v claims) = count_status ''unverifiable'' (dr_claims (verify_document v claims)) \<and>
   dr_supported (verify_document v claims) + dr_contradicted (verify_document v claims)
     + dr_unverifiable (verify_document v claims) = dr_total (verify_document v claims) \<and>
   dr_trust_score (verify_document v claims) =
     (if claims = [] then 0
      else max 0 (min 1 (real (dr_supported (verify_document v claims)) / real (dr_total (verify_document v claims))
                         - 0.5 * (real (dr_contradicted (verify_document v claims)) / real (dr_total (verify_document v claims)))))) \<and>
   0 \<le> dr_trust_score (verify_document v claims) \<and> dr_trust_score (verify_document v claims) \<le> 1"
proof -
  let ?rs = "map (\<lambda>c. verify_claim v c 5) claims"
  have "\<forall>r \<in> set ?rs. cr_status r \<in> {''supported'', ''contradicted'', ''unverifiable''}"
  proof
    fix r assume "r \<in> set ?rs"
    then obtain c where "r = verify_claim v c 5" by auto
    then show "cr_status r \<in> {''supported'', ''contradicted'', ''unverifiable''}"
      using verify_claim_status [of v c 5] by simp
  qed
  then have sum: "count_status ''supported'' ?rs + count_status ''contradicted'' ?rs
         + count_status ''unverifiable'' ?rs = length ?rs"
    by (rule three_way_count)
  show ?thesis using sum by (simp add: verify_document_def Let_def mult.commute)
qed

lemmas example_verifier_defs = verify_document_def example_verifier_def example_claims_def
     verify_claim_def count_status_def Let_def
     nli_of_chunk_def run_nli_def softmax_def argmax_def LABEL_MAP_def aggregate_nli_results_def
     reaches_def max_confidence_def contains_any_def lower_def lower_char_def

theorem verify_document_trust_score_witness:
  "dr_total (verify_document example_verifier example_claims) = 4 \<and>
   dr_supported (verify_document example_verifier example_claims) = 1 \<and>
   dr_contradicted (verify_document example_verifier example_claims) = 1 \<and>
   dr_unverifiable (verify_document example_verifier example_claims) = 2 \<and>
   dr_trust_score (verify_document example_verifier example_claims) = 1 / 8"
proof -
  have c: "dr_supported (verify_document example_verifier example_claims) = 1"
    "dr_contradicted (verify_document example_verifier example_claims) = 1"
    "dr_unverifiable (verify_document example_verifier example_claims) = 2"
    by (simp_all add: example_verifier_defs)
  have n: "example_claims \<noteq> []" "length example_claims = 4" by (simp_all add: example_claims_def)
  show ?thesis
    using verify_document_trust_score [of example_verifier example_claims] c n by simp
qed

section \<open>Properties of the semantic matcher\<close>

lemma consider_column_inv:
  "match_inv th (ci_name src_col) cols st \<Longrightarrow> tgt_col \<in> set cols \<Longrightarrow>
   match_inv th (ci_name src_col) cols (consider_column mt sn tn th src_col st tgt_col)"
  by (cases st) (auto simp: consider_column_def match_inv_def Let_def)

lemma foldl_consider_column_inv:
  "match_inv th (ci_name src_col) cols st \<Longrightarrow> set tcs \<subseteq> set cols \<Longrightarrow>
   match_inv th (ci_name src_col) cols (foldl (consider_column mt sn tn th src_col) st tcs)"
  by (induction tcs arbitrary: st) (simp_all add: consider_column_inv)

lemma generate_match_explanation_keeps:
  "generate_match_explanation mt m sc tc = (e, m') \<Longrightarrow>
   cm_overall_score m' = cm_overall_score m \<and> cm_confidence m' = cm_confidence m \<and>
   cm_source_column m' = cm_source_column m"
  by (auto simp: generate_match_explanation_def Let_def)

lemma find_name_Some:
  "n \<in> ci_name ` set cols \<Longrightarrow> \<exists>c. find (\<lambda>c. ci_name c = n) cols = Some c"
  by (cases "find (\<lambda>c. ci_name c = n) cols") (auto simp: find_None_iff)

lemma match_one_column_result:
  "\<exists>ms. match_one_column mt src tgt th src_col = Inr ms \<and>
        (ms = [] \<or> (\<exists>m. ms = [m] \<and> good_match th m \<and> cm_source_column m = ci_name src_col))"
proof -
  let ?st = "foldl (consider_column mt (ti_name src) (ti_name tgt) th src_col) (None, 0) (ti_columns tgt)"
  have inv: "match_inv th (ci_name src_col) (ti_columns tgt) ?st"
    by (rule foldl_consider_column_inv) (simp_all add: match_inv_def)
  obtain best score where st: "?st = (best, score)" by (cases ?st)
  show ?thesis
  proof (cases best)
    case None
    then show ?thesis using st by (simp add: match_one_column_def)
  next
    case (Some bm)
    then have p: "cm_overall_score bm \<ge> th" "cm_confidence bm = determine_confidence (cm_overall_score bm)"
      "cm_source_column bm = ci_name src_col" "cm_target_column bm \<in> ci_name ` set (ti_columns tgt)"
      using inv st by (simp_all add: match_inv_def)
    obtain c where c: "find (\<lambda>c. ci_name c = cm_target_column bm) (ti_columns tgt) = Some c"
      using find_name_Some [OF p(4)] by blast
    obtain e m' where g: "generate_match_explanation mt bm src_col c = (e, m')"
      by (cases "generate_match_explanation mt bm src_col c")
    have r: "match_one_column mt src tgt th src_col = Inr [m'\<lparr> cm_explanation := e \<rparr>]"
      using st Some c g by (simp add: match_one_column_def)
    show ?thesis using r generate_match_explanation_keeps [OF g] p
      by (simp add: good_match_def)
  qed
qed

lemma collect_matches_result:
  "\<exists>ms. collect_matches mt src tgt th cols = Inr ms \<and>
        mset (map cm_source_column ms) \<subseteq># mset (map ci_name cols) \<and>
        (\<forall>m \<in> set ms. good_match th m)"
proof (induction cols)
  case Nil
  then show ?case by simp
next
  case (Cons c cols)
  obtain ms' where ih: "collect_matches mt src tgt th cols = Inr ms'"
    "mset (map cm_source_column ms') \<subseteq># mset (map ci_name cols)" "\<forall>m \<in> set ms'. good_match th m"
    using Cons.IH by blast
  obtain ms where one: "match_one_column mt src tgt th c = Inr ms"
    "ms = [] \<or> (\<exists>m. ms = [m] \<and> good_match th m \<and> cm_source_column m = ci_name c)"
    using match_one_column_result [of mt src tgt th c] by blast
  have r: "collect_matches mt src tgt th (c # cols) = Inr (ms @ ms')"
    using ih(1) one(1) by simp
  from one(2) show ?case
  proof
    assume "ms = []"
    then show ?thesis using r ih by (auto intro: subset_mset.order_trans)
  next
    assume "\<exists>m. ms = [m] \<and> good_match th m \<and> cm_source_column m = ci_name c"
    then obtain m where m: "ms = [m]" "good_match th m" "cm_source_column m = ci_name c" by blast
    then show ?thesis using r ih by auto
  qed
qed

lemma sorted_neg_key:
  "sorted (map (\<lambda>x. - cm_overall_score x) ms) \<Longrightarrow>
   sorted_wrt (\<lambda>a b. cm_overall_score a \<ge> cm_overall_score b) ms"
  by (induction ms) auto

text \<open>
  C9. \<open>SemanticMatcher.match_columns\<close> returns (it never raises) at most one match per
  source column; every match has an overall score of at least the threshold and the
  confidence given by the cutoffs 0.85 (HIGH), 0.60 (MEDIUM) and 0.40 (LOW), NONE below;
  the list is in non-increasing order of overall score.
\<close>

theorem semantic_match_columns_properties:
  "\<exists>ms. semantic_match_columns mt src tgt th = Inr ms \<and>
     mset (map cm_source_column ms) \<subseteq># mset (map ci_name (ti_columns src)) \<and>
     (\<forall>m \<in> set ms. cm_overall_score m \<ge> th \<and>
        cm_confidence m = (if cm_overall_score m \<ge> 0.85 then HIGH
                           else if cm_overall_score m \<ge> 0.60 then MEDIUM
                           else if cm_overall_score m \<ge> 0.40 then LOW else NONE)) \<and>
     sorted_wrt (\<lambda>a b. cm_overall_score a \<ge> cm_overall_score b) ms"
proof -
  obtain ms where c: "collect_matches mt src tgt th (ti_columns src) = Inr ms"
    "mset (map cm_source_column ms) \<subseteq># mset (map ci_name (ti_columns src))"
    "\<forall>m \<in> set ms. good_match th m"
    using collect_matches_result [of mt src tgt th "ti_columns src"] by blast
  let ?s = "sort_key (\<lambda>x. - cm_overall_score x) ms"
  have r: "semantic_match_columns mt src tgt th = Inr ?s"
    using c(1) by (simp add: semantic_match_columns_def)
  have m: "mset (map cm_source_column ?s) \<subseteq># mset (map ci_name (ti_columns src))"
    using c(2) by (metis mset_map mset_sort)
  have g: "\<forall>m \<in> set ?s. cm_overall_score m \<ge> th \<and>
        cm_confidence m = (if cm_overall_score m \<ge> 0.85 then HIGH
                           else if cm_overall_score m \<ge> 0.60 then MEDIUM
                           else if cm_overall_score m \<ge> 0.40 then LOW else NONE)"
    using c(3) by (simp add: good_match_def determine_confidence_def)
  have s: "sorted_wrt (\<lambda>a b. cm_overall_score a \<ge> cm_overall_score b) ?s"
    by (rule sorted_neg_key) (rule sorted_sort_key)
  show ?thesis using r m g s by blast
qed

lemmas example_matcher_defs = semantic_match_columns_def match_one_column_def consider_column_def
  example_matcher_def example_source_table_def example_target_table_def
  weight_semantic_def weight_syntactic_def weight_type_def compute_type_score_def normalize_type_def
  strip_def is_space_def upper_char_def compatible_with_def TYPE_COMPATIBILITY_def
  determine_confidence_def generate_match_explanation_def arrow_def Let_def

theorem semantic_match_columns_properties_witness:
  "\<not> isl (semantic_match_columns example_matcher example_source_table example_target_table 0.4) \<and>
   map (\<lambda>m. (cm_source_column m, cm_overall_score m, cm_confidence m))
     (projr (semantic_match_columns example_matcher example_source_table example_target_table 0.4))
     = [(''cust_id'', 0.89, HIGH), (''fname'', 0.66, MEDIUM)]"
proof -
  have a: "\<not> isl (semantic_match_columns example_matcher example_source_table example_target_table 0.4)"
    by code_simp
  have b: "map (\<lambda>m. (cm_source_column m, cm_overall_score m, cm_confidence m))
     (projr (semantic_match_columns example_matcher example_source_table example_target_table 0.4))
     = [(''cust_id'', 0.89, HIGH), (''fname'', 0.66, MEDIUM)]"
    by code_simp
  show ?thesis
    using semantic_match_columns_properties
            [of example_matcher example_source_table example_target_table "0.4"] a b
    by blast
qed

section \<open>Properties of the migration executor\<close>

subsection \<open>The texts of the statements\<close>

lemma example_statement_texts:
  \<open>count_query ''cust_info'' = ''SELECT COUNT('' @ ''*) FROM cust_info''\<close>
  \<open>batch_query ''cust_info'' [''cust_id'', ''fname''] 2 0 =
     ''SELECT rowid, "cust_id", "fname" FROM "cust_info" LIMIT 2 OFFSET 0''\<close>
  \<open>batch_query ''t'' [] (- 1) 1000 = ''SELECT rowid,  FROM "t" LIMIT -1 OFFSET 1000''\<close>
  \<open>insert_sql ''customers'' [''customer_id'', ''first_name''] =
     ''INSERT INTO "customers" ("customer_id", "first_name") VALUES (?, ?)''\<close>
  \<open>delete_sql ''customers'' = ''DELETE FROM "customers"''\<close>
  \<open>samples_query ''cust_info'' ''fname'' =
     ''SELECT "fname" FROM "cust_info" WHERE "fname" IS NOT NULL LIMIT 100''\<close>
  by code_simp+

subsection \<open>The dict of the column data\<close>








subsection \<open>Rows\<close>

lemma row_values_applied:
  "fst (row_values bi tmap row i cols vals applied) = fst (row_values bi tmap row i cols vals applied')"
  by (induction cols arbitrary: i vals applied applied')
     (simp_all split: option.splits sum.splits)







subsection \<open>The batch loop\<close>



subsection \<open>Connections\<close>

lemma connect_ok:
  "source_disk s = Some sdb \<Longrightarrow> target_disk s = Some tdb \<Longrightarrow>
   connect s = (None, connected sdb tdb s)"
  by (simp add: connect_def connected_def Let_def)

lemma connect_frame:
  "connect s = (eo, s1) \<Longrightarrow>
   target_disk s1 = target_disk s \<and> source_disk s1 = source_disk s \<and>
   target_log s1 = target_log s \<and> results s1 = results s \<and> is_dry_run s1 = is_dry_run s \<and>
   sqlite3 s1 = sqlite3 s"
  by (auto simp: connect_def Let_def split: option.splits)

lemma connect_fails:
  "source_disk s = None \<or> target_disk s = None \<Longrightarrow>
   \<exists>s1. connect s = (Some unable_to_open, s1) \<and> target_conn s1 = target_conn s"
  by (auto simp: connect_def Let_def split: option.splits)

lemma disconnect_frame:
  "target_disk (disconnect s) = target_disk s \<and> source_disk (disconnect s) = source_disk s \<and>
   target_log (disconnect s) = target_log s \<and> results (disconnect s) = results s \<and>
   is_dry_run (disconnect s) = is_dry_run s"
  by (simp add: disconnect_def close_conn_def split: prod.splits option.splits)

lemma disconnect_closes: "no_open_connection (disconnect s)"
  by (simp add: disconnect_def close_conn_def no_open_connection_def conn_closed_def
      split: prod.splits option.splits)

lemma finish_frame:
  "target_disk (finish r s) = target_disk s \<and> target_log (finish r s) = target_log s \<and>
   results (finish r s) = results s @ [r] \<and> no_open_connection (finish r s)"
  using disconnect_closes [of s]
  by (simp add: finish_def disconnect_frame no_open_connection_def)

subsection \<open>The body of \<open>migrate_table\<close>\<close>

lemma try_body_connected:
  assumes "source_disk s = Some sdb" and "target_disk s = Some tdb"
  shows "try_body bi st tt cms trs b dry result s =
    (case sq_count (sqlite3 s) sdb (count_query st) of
       Inl e \<Rightarrow> Some (Some e, result, connected sdb tdb s)
     | Inr n \<Rightarrow>
         if dry then
           Some (None, result\<lparr> records_attempted := n, res_status := COMPLETED,
                               records_migrated := n \<rparr>, connected sdb tdb s)
         else
           (case batch_loop (batch_args_of bi (sqlite3 s) sdb st tt cms trs b) (int n) 0
                   (result\<lparr> records_attempted := n \<rparr>, tdb) of
              None \<Rightarrow> None
            | Some (Inl (e, (r, tdb'))) \<Rightarrow>
                Some (Some e, r, set_target_view tdb' (connected sdb tdb s))
            | Some (Inr (r, tdb')) \<Rightarrow>
                Some (None,
                      r\<lparr> res_status := (if records_failed r = 0 then COMPLETED else PARTIAL) \<rparr>,
                      (set_target_view tdb' (connected sdb tdb s))
                        \<lparr> target_disk := Some tdb', target_log := target_log s @ [Commit] \<rparr>)))"
  using assms
  by (simp add: try_body_def connect_ok live_view_def connected_def commit_target_def
      set_target_view_def Let_def split: sum.splits option.splits prod.splits)

lemma try_body_unconnected:
  assumes "source_disk s = None \<or> target_disk s = None"
  shows "\<exists>s1. try_body bi st tt cms trs b dry result s = Some (Some unable_to_open, result, s1) \<and>
           target_conn s1 = target_conn s \<and> target_disk s1 = target_disk s \<and>
           target_log s1 = target_log s \<and> results s1 = results s"
proof -
  obtain s1 where c: "connect s = (Some unable_to_open, s1)" "target_conn s1 = target_conn s"
    using connect_fails [OF assms] by blast
  then show ?thesis using connect_frame [OF c(1)] by (simp add: try_body_def)
qed

lemma rollback_target_open:
  "target_conn s = Some c \<Longrightarrow> conn_open c \<Longrightarrow>
   \<exists>s2. rollback_target s = Inr s2 \<and> target_disk s2 = target_disk s \<and>
        target_log s2 = target_log s @ [Rollback] \<and> results s2 = results s"
  by (simp add: rollback_target_def live_view_def set_target_view_def)

lemma rollback_target_frame:
  "rollback_target s = Inr s2 \<Longrightarrow>
   target_disk s2 = target_disk s \<and> target_log s2 = target_log s @ [Rollback] \<and>
   results s2 = results s"
  by (auto simp: rollback_target_def live_view_def set_target_view_def
      split: sum.splits option.splits if_splits)


lemma migrate_table_normal:
  assumes "try_body bi st tt cms trs b dry (initial_result st tt) (s\<lparr> is_dry_run := dry \<rparr>)
             = Some (None, r, s1)"
  shows "migrate_table bi st tt cms trs b dry s = Some (Inr r, finish r s1)"
  using assms by (simp add: migrate_table_def)

text \<open>
  The \<open>except\<close> block: the result is marked FAILED and recorded; the target connection is
  rolled back when the field holds an open connection, and left alone when the field is
  \<open>None\<close>; nothing reaches the target file.
\<close>

lemma migrate_table_raised:
  assumes "try_body bi st tt cms trs b dry (initial_result st tt) (s\<lparr> is_dry_run := dry \<rparr>)
             = Some (Some e, r, s1)"
  shows "\<exists>out s'. migrate_table bi st tt cms trs b dry s = Some (out, s') \<and>
           (out = Inr (failed_with e r) \<or> (\<exists>e2. out = Inl e2)) \<and>
           results s' = results s1 @ [failed_with e r] \<and>
           target_disk s' = target_disk s1 \<and>
           (target_log s' = target_log s1 \<or> target_log s' = target_log s1 @ [Rollback]) \<and>
           ((\<exists>c. target_conn s1 = Some c \<and> conn_open c) \<longrightarrow>
              out = Inr (failed_with e r) \<and> target_log s' = target_log s1 @ [Rollback]) \<and>
           (target_conn s1 = None \<longrightarrow>
              out = Inr (failed_with e r) \<and> target_log s' = target_log s1) \<and>
           no_open_connection s'"
proof (cases "target_conn s1")
  case None
  then show ?thesis using assms finish_frame [of "failed_with e r" s1]
    by (simp add: migrate_table_def failed_with_def Let_def)
next
  case (Some c)
  show ?thesis
  proof (cases "rollback_target s1")
    case (Inl e2)
    have "\<not> conn_open c" using Inl Some rollback_target_open [of s1 c] by auto
    then show ?thesis using assms Some Inl finish_frame [of "failed_with e r" s1]
      by (simp add: migrate_table_def failed_with_def Let_def)
  next
    case (Inr s2)
    then show ?thesis
      using assms Some rollback_target_frame [OF Inr] finish_frame [of "failed_with e r" s2]
      by (simp add: migrate_table_def failed_with_def Let_def)
  qed
qed




subsection \<open>Commit or rollback\<close>


text \<open>
  The rollback that the \<open>except\<close> block makes on an executor used before: when \<open>connect\<close>
  fails, the field \<open>target_conn\<close> still holds the closed connection of the earlier call,
  \<open>rollback\<close> on it raises, and the exception leaves \<open>migrate_table\<close>.
\<close>

lemma migrate_table_stale_connection:
  fixes s :: "'db exec_state"
  assumes "source_disk s = None \<or> target_disk s = None"
    and "target_conn s = Some c" and "\<not> conn_open c"
    and "migrate_table bi st tt cms trs b dry s = Some (out, s')"
  shows "out = Inl closed_database"
proof -
  let ?s0 = "s\<lparr> is_dry_run := dry \<rparr>"
  have "source_disk ?s0 = None \<or> target_disk ?s0 = None" using assms(1) by simp
  from try_body_unconnected [OF this, of bi st tt cms trs b dry "initial_result st tt"]
  obtain s1 where u:
    "try_body bi st tt cms trs b dry (initial_result st tt) ?s0 =
       Some (Some unable_to_open, initial_result st tt, s1)"
    "target_conn s1 = target_conn s"
    by auto
  have "rollback_target s1 = Inl closed_database"
    using u(2) assms(2,3) by (simp add: rollback_target_def live_view_def)
  then show ?thesis using u assms(2,4) by (simp add: migrate_table_def Let_def)
qed

subsection \<open>Dry runs\<close>

text \<open>
  A dry run returns, inserts nothing and commits nothing: the target file is unchanged.
  On files that open, when the count gives \<open>n\<close>, the result is COMPLETED with
  \<open>records_attempted\<close> and \<open>records_migrated\<close> equal to \<open>n\<close> and no failed record.
\<close>

lemma migrate_table_dry_run_frame:
  fixes s :: "'db exec_state"
  shows "\<exists>out s'. migrate_table bi st tt cms trs b True s = Some (out, s') \<and>
      target_disk s' = target_disk s \<and>
      (target_log s' = target_log s \<or> target_log s' = target_log s @ [Rollback]) \<and>
      (\<forall>sdb tdb n. source_disk s = Some sdb \<and> target_disk s = Some tdb \<and>
                   sq_count (sqlite3 s) sdb (count_query st) = Inr n \<longrightarrow>
         out = Inr ((initial_result st tt)\<lparr> records_attempted := n, res_status := COMPLETED,
                                              records_migrated := n \<rparr>) \<and>
         target_conn s' = Some \<lparr> conn_open = False, conn_view = tdb \<rparr> \<and>
         target_log s' = target_log s)"
proof -
  let ?s0 = "s\<lparr> is_dry_run := True \<rparr>"
  let ?tb = "try_body bi st tt cms trs b True (initial_result st tt) ?s0"
  have raised: ?thesis
    if tb: "?tb = Some (Some e, r, s1)"
      and fr: "target_disk s1 = target_disk s" "target_log s1 = target_log s"
      and no: "\<forall>sdb tdb n. \<not> (source_disk s = Some sdb \<and> target_disk s = Some tdb \<and>
                    sq_count (sqlite3 s) sdb (count_query st) = Inr n)"
    for e r s1
    using migrate_table_raised [OF tb] fr no by auto
  show ?thesis
  proof (cases "source_disk s = None \<or> target_disk s = None")
    case True
    then have "source_disk ?s0 = None \<or> target_disk ?s0 = None" by simp
    from try_body_unconnected [OF this, of bi st tt cms trs b True "initial_result st tt"]
    obtain s1 where u: "?tb = Some (Some unable_to_open, initial_result st tt, s1)"
      "target_disk s1 = target_disk s" "target_log s1 = target_log s"
      by auto
    show ?thesis by (rule raised [OF u]) (use True in auto)
  next
    case False
    then obtain sdb tdb where d: "source_disk s = Some sdb" "target_disk s = Some tdb" by auto
    then have d0: "source_disk ?s0 = Some sdb" "target_disk ?s0 = Some tdb" by simp_all
    note tb = try_body_connected [OF d0, of bi st tt cms trs b True "initial_result st tt"]
    show ?thesis
    proof (cases "sq_count (sqlite3 s) sdb (count_query st)")
      case (Inl e)
      then have t: "?tb = Some (Some e, initial_result st tt, connected sdb tdb ?s0)"
        using tb by simp
      show ?thesis by (rule raised [OF t]) (use d Inl in \<open>auto simp: connected_def\<close>)
    next
      case (Inr n)
      let ?r = "(initial_result st tt)\<lparr> records_attempted := n, res_status := COMPLETED,
                                           records_migrated := n \<rparr>"
      have "?tb = Some (None, ?r, connected sdb tdb ?s0)"
        using tb Inr by simp
      from migrate_table_normal [OF this]
      have m: "migrate_table bi st tt cms trs b True s = Some (Inr ?r, finish ?r (connected sdb tdb ?s0))" .
      have c: "target_conn (finish ?r (connected sdb tdb ?s0)) = Some \<lparr> conn_open = False, conn_view = tdb \<rparr>"
        by (simp add: finish_def disconnect_def close_conn_def connected_def split: prod.splits)
      show ?thesis
        using m c d Inr finish_frame [of ?r "connected sdb tdb ?s0"]
        by (simp add: connected_def)
    qed
  qed
qed

subsection \<open>Failed rows\<close>




subsection \<open>The example migrations\<close>










text \<open>
  C10. A dry run of \<open>migrate_table\<close> should report COMPLETED with the row count of the
  source table. The count is the one statement of the executor that does not quote the
  name of the table: the source table \<open>order\<close> has three rows, and the SELECT of
  \<open>_migrate_batch\<close>, which quotes the name, reads them; the count of the dry run is a
  syntax error, and the dry run reports FAILED with no record attempted. The target file
  is unchanged.
\<close>

theorem migrate_table_dry_run_unquoted_count:
  "map_option (length \<circ> tbl_rows) (map_of example_source_db ''order'') = Some 3 \<and>
   sq_fetchall example_sqlite example_source_db (batch_query ''order'' [''id''] 2 0) =
     Inr [ [IntV 1, IntV 10], [IntV 2, IntV 20] ] \<and>
   sq_count example_sqlite example_source_db (count_query ''order'') =
     Inl (keyword_error ''order'') \<and>
   map_option fst (migrate_table example_builtins ''order'' ''orders'' example_order_mappings [] 2
     True example_state) =
     Some (Inr \<lparr> res_source_table = ''order'', res_target_table = ''orders'',
                 res_status = FAILED, records_attempted = 0, records_migrated = 0,
                 records_failed = 0, failed_records = [],
                 res_error_message = Some (error_str (keyword_error ''order'')),
                 transformations_applied = [] \<rparr>) \<and>
   map_option (target_disk \<circ> snd) (migrate_table example_builtins ''order'' ''orders''
     example_order_mappings [] 2 True example_state) = Some (target_disk example_state)"
  by code_simp

subsection \<open>Open connections\<close>

lemma disconnect_handles: "open_handles (disconnect s) = open_handles s - open_fields s"
  by (simp add: disconnect_def close_conn_def open_fields_def conn_closed_def
      split: prod.splits option.splits)

lemma connect_handles:
  "no_open_connection s \<Longrightarrow> connect s = (eo, s1) \<Longrightarrow>
   open_handles s1 = open_handles s + open_fields s1"
  by (auto simp: connect_def Let_def no_open_connection_def open_fields_def conn_closed_def
      split: option.splits)

lemma rollback_target_handles:
  "rollback_target s = Inr s2 \<Longrightarrow> open_handles s2 = open_handles s \<and> open_fields s2 = open_fields s"
  by (auto simp: rollback_target_def live_view_def set_target_view_def open_fields_def
      conn_closed_def split: sum.splits option.splits if_splits)

lemma try_body_handles:
  "try_body bi st tt cms trs b dry result s = Some (eo, r, s1) \<Longrightarrow> connect s = (c, sc) \<Longrightarrow>
   open_handles s1 = open_handles sc \<and> open_fields s1 = open_fields sc"
  by (auto simp: try_body_def commit_target_def live_view_def set_target_view_def open_fields_def
      conn_closed_def Let_def split: sum.splits option.splits prod.splits if_splits)

lemma finish_handles: "open_handles (finish r s) = open_handles s - open_fields s"
  by (simp add: finish_def disconnect_handles)

lemma migrate_table_closes_connections:
  assumes run: "migrate_table bi st tt cms trs b dry s = Some (out, s')"
  shows "no_open_connection s' \<and> (no_open_connection s \<longrightarrow> open_handles s' = open_handles s)"
proof -
  let ?s0 = "s\<lparr> is_dry_run := dry \<rparr>"
  obtain c sc where c: "connect ?s0 = (c, sc)" by (cases "connect ?s0")
  have h: "no_open_connection s \<Longrightarrow> open_handles sc = open_handles s + open_fields sc"
    using connect_handles [OF _ c] by (simp add: no_open_connection_def)
  obtain eo r s1 where tb: "try_body bi st tt cms trs b dry (initial_result st tt) ?s0 = Some (eo, r, s1)"
    using run by (cases "try_body bi st tt cms trs b dry (initial_result st tt) ?s0")
      (auto simp: migrate_table_def)
  note th = try_body_handles [OF tb c]
  show ?thesis
  proof (cases eo)
    case None
    then have "s' = finish r s1" using migrate_table_normal tb run by fastforce
    then show ?thesis using finish_frame [of r s1] finish_handles [of r s1] th h by simp
  next
    case (Some e)
    let ?r = "failed_with e r"
    have "s' = finish ?r s1 \<or> (\<exists>s2. rollback_target s1 = Inr s2 \<and> s' = finish ?r s2)"
      using run tb Some
      by (auto simp: migrate_table_def failed_with_def Let_def split: option.splits sum.splits)
    then show ?thesis
    proof
      assume "s' = finish ?r s1"
      then show ?thesis using finish_frame [of ?r s1] finish_handles [of ?r s1] th h by simp
    next
      assume "\<exists>s2. rollback_target s1 = Inr s2 \<and> s' = finish ?r s2"
      then obtain s2 where s2: "rollback_target s1 = Inr s2" "s' = finish ?r s2" by blast
      show ?thesis
        using finish_frame [of ?r s2] finish_handles [of ?r s2] rollback_target_handles [OF s2(1)]
          th h s2(2) by simp
    qed
  qed
qed

lemma rollback_migration_closes_connections:
  assumes "rollback_migration tt s = (ok, s')"
  shows "no_open_connection s' \<and> (no_open_connection s \<longrightarrow> open_handles s' = open_handles s)"
proof -
  obtain c sc where c: "connect s = (c, sc)" by (cases "connect s")
  have closed: "no_open_connection s'"
    using assms
    by (auto simp: rollback_migration_def disconnect_closes
        split: sum.splits option.splits prod.splits)
  have "open_handles s' = open_handles sc - open_fields sc"
    using assms c
    by (auto simp: rollback_migration_def disconnect_handles commit_target_def live_view_def
        set_target_view_def open_fields_def conn_closed_def
        split: sum.splits option.splits prod.splits if_splits)
  then show ?thesis using closed connect_handles [OF _ c] by auto
qed

lemma detect_split_candidates_closes_when_connected:
  fixes s :: "'db exec_state"
  assumes "source_disk s = Some sdb" and "target_disk s = Some tdb"
    and "detect_split_candidates bi st col s = (out, s')"
  shows "no_open_connection s' \<and> (no_open_connection s \<longrightarrow> open_handles s' = open_handles s)"
proof -
  have c: "connect s = (None, connected sdb tdb s)" using assms(1,2) by (rule connect_ok)
  then have "s' = disconnect (connected sdb tdb s)"
    using assms(3) by (simp add: detect_split_candidates_def)
  then show ?thesis
    using connect_handles [OF _ c] disconnect_closes [of "connected sdb tdb s"]
      disconnect_handles [of "connected sdb tdb s"] by auto
qed

text \<open>
  C5. Every operation on the databases should close, in its \<open>finally\<close> block, the
  connections that \<open>connect\<close> opened, on success and on error alike. \<open>migrate_table\<close> and
  \<open>rollback_migration\<close> do (the two lemmas above). \<open>detect_split_candidates\<close> calls
  \<open>connect\<close> before its \<open>try\<close>: for an executor whose target path cannot be opened,
  \<open>connect\<close> raises after it has opened the source connection, the \<open>finally\<close> block is
  never entered and the source connection stays open.
\<close>

theorem detect_split_candidates_leaves_source_open:
  "no_open_connection example_state_no_target \<and>
   open_handles example_state_no_target = 0 \<and>
   fst (detect_split_candidates example_builtins ''cust_info'' ''fname'' example_state_no_target)
     = Inl unable_to_open \<and>
   map_option conn_open (source_conn (snd (detect_split_candidates example_builtins ''cust_info''
     ''fname'' example_state_no_target))) = Some True \<and>
   \<not> no_open_connection (snd (detect_split_candidates example_builtins ''cust_info'' ''fname''
     example_state_no_target)) \<and>
   open_handles (snd (detect_split_candidates example_builtins ''cust_info'' ''fname''
     example_state_no_target)) = 1 \<and>
   no_open_connection (snd (the (migrate_table example_builtins ''cust_info'' ''customers''
     example_mappings [] 2 False example_state_no_target))) \<and>
   no_open_connection (snd (rollback_migration ''customers'' example_state_no_target))"
  by code_simp

section \<open>Properties of the REST layers\<close>

text \<open>
  C6. For a session id that is not in \<open>sessions\<close>, each of the six endpoints raises the
  \<open>HTTPException\<close> with status 404 and detail "Session not found" and leaves the state,
  and so the \<open>sessions\<close> dict, as it was.
\<close>

theorem unknown_session_is_404:
  assumes "sessions st session_id = None"
  shows "analyze_schemas env session_id threshold st = (HTTPException 404 ''Session not found'', st) \<and>
         get_mapping_report env session_id st = (HTTPException 404 ''Session not found'', st) \<and>
         execute_migration env session_id st = (HTTPException 404 ''Session not found'', st) \<and>
         get_validation_report env session_id st = (HTTPException 404 ''Session not found'', st) \<and>
         get_visualization_data env session_id st = (HTTPException 404 ''Session not found'', st) \<and>
         get_explainability_report env session_id st = (HTTPException 404 ''Session not found'', st)"
  using assms
  by (simp add: analyze_schemas_def get_mapping_report_def execute_migration_def
      get_validation_report_def get_visualization_data_def get_explainability_report_def
      session_not_found_def)

theorem unknown_session_is_404_witness:
  "sessions example_api_state ''19990101_000000'' = None \<and>
   analyze_schemas example_api_env ''19990101_000000'' 0.6 example_api_state
     = (HTTPException 404 ''Session not found'', example_api_state) \<and>
   execute_migration example_api_env ''19990101_000000'' example_api_state
     = (HTTPException 404 ''Session not found'', example_api_state) \<and>
   get_mapping_report example_api_env ''20240101_120000'' example_api_state
     = (HTTPException 400 ''Analysis not run yet'', example_api_state)"
proof -
  have h: "sessions example_api_state ''19990101_000000'' = None"
    by (simp add: example_api_state_def)
  have k: "get_mapping_report example_api_env ''20240101_120000'' example_api_state
     = (HTTPException 400 ''Analysis not run yet'', example_api_state)"
    by (simp add: get_mapping_report_def example_api_state_def example_session_def)
  show ?thesis
    using unknown_session_is_404 [OF h, of example_api_env "0.6"] h k by simp
qed

text \<open>
  C4. In \<open>/verify\<close>, an exception raised by claim atomization, verification, citation
  linking, correction generation or the HTML step ends the \<open>try\<close> block; the endpoint
  then marks the stored job as failed with the error string and raises the
  \<open>HTTPException\<close> with status 500, leaving the other jobs alone. \<open>/upload-source\<close> turns
  an exception of the ingestion into the \<open>HTTPException\<close> with status 500.
\<close>

theorem api_errors_become_500:
  "(atomize_claims p llm_text = Inl e \<longrightarrow> verify_steps p job_id llm_text = Inl e) \<and>
   (atomize_claims p llm_text = Inr claims \<and> verify_claims p claims = Inl e \<longrightarrow>
      verify_steps p job_id llm_text = Inl e) \<and>
   (atomize_claims p llm_text = Inr claims \<and> verify_claims p claims = Inr v \<and>
    annotate_text_with_citations p llm_text (dr_claims v) = Inl e \<longrightarrow>
      verify_steps p job_id llm_text = Inl e) \<and>
   (atomize_claims p llm_text = Inr claims \<and> verify_claims p claims = Inr v \<and>
    annotate_text_with_citations p llm_text (dr_claims v) = Inr a \<and>
    generate_correction_report p (dr_claims v) = Inl e \<longrightarrow>
      verify_steps p job_id llm_text = Inl e) \<and>
   (atomize_claims p llm_text = Inr claims \<and> verify_claims p claims = Inr v \<and>
    annotate_text_with_citations p llm_text (dr_claims v) = Inr a \<and>
    generate_correction_report p (dr_claims v) = Inr c \<and>
    generate_html_annotated_text p a = Inl e \<longrightarrow>
      verify_steps p job_id llm_text = Inl e) \<and>
   (verify_steps p job_id llm_text = Inl e \<longrightarrow>
      fst (verify_text p job_id now llm_text jobs)
        = HTTPException 500 (''Verification failed: '' @ error_str e) \<and>
      snd (verify_text p job_id now llm_text jobs) job_id
        = Some \<lparr> job_status = ''failed'', job_created_at = now, job_llm_text = llm_text,
                 job_error = Some (error_str e), job_response = None \<rparr> \<and>
      (\<forall>j. j \<noteq> job_id \<longrightarrow> snd (verify_text p job_id now llm_text jobs) j = jobs j)) \<and>
   (suffix ''.pdf'' filename \<and> ingest_pdf p (''temp_'' @ filename) filename = Inl e \<longrightarrow>
      fst (upload_source_document p filename None files)
        = HTTPException 500 (''Failed to ingest document: '' @ error_str e) \<and>
      ''temp_'' @ filename \<notin> snd (upload_source_document p filename None files))"
  by (simp add: verify_steps_def verify_text_def upload_source_document_def Let_def)

theorem api_errors_become_500_witness:
  "atomize_claims example_pipeline ''Aspirin cures everything.'' = Inr [''Aspirin cures everything.''] \<and>
   verify_claims example_pipeline [''Aspirin cures everything.'']
     = Inl (OtherError ''RuntimeError'' ''model not loaded'') \<and>
   fst (verify_text example_pipeline ''ab12cd34'' ''2024-01-01T12:00:00''
          ''Aspirin cures everything.'' Map.empty)
     = HTTPException 500 ''Verification failed: model not loaded'' \<and>
   map_option job_status (snd (verify_text example_pipeline ''ab12cd34'' ''2024-01-01T12:00:00''
          ''Aspirin cures everything.'' Map.empty) ''ab12cd34'') = Some ''failed'' \<and>
   suffix ''.pdf'' ''guide.pdf'' \<and>
   fst (upload_source_document example_pipeline ''guide.pdf'' None {})
     = HTTPException 500 ''Failed to ingest document: not a PDF''"
proof -
  have a: "atomize_claims example_pipeline ''Aspirin cures everything.'' = Inr [''Aspirin cures everything.'']"
    "verify_claims example_pipeline [''Aspirin cures everything.'']
       = Inl (OtherError ''RuntimeError'' ''model not loaded'')"
    "ingest_pdf example_pipeline (''temp_'' @ ''guide.pdf'') ''guide.pdf''
       = Inl (OtherError ''ValueError'' ''not a PDF'')"
    by (simp_all add: example_pipeline_def)
  have s: "suffix ''.pdf'' ''guide.pdf''" by (simp add: suffix_def)
  note t = api_errors_become_500 [of example_pipeline "''Aspirin cures everything.''"
      "OtherError ''RuntimeError'' ''model not loaded''" "''ab12cd34''"
      "[''Aspirin cures everything.'']" _ _ _ "''2024-01-01T12:00:00''" Map.empty]
  note u = api_errors_become_500 [of example_pipeline _
      "OtherError ''ValueError'' ''not a PDF''" _ _ _ _ _ _ _ "''guide.pdf''" "{}"]
  have v: "verify_steps example_pipeline ''ab12cd34'' ''Aspirin cures everything.''
             = Inl (OtherError ''RuntimeError'' ''model not loaded'')"
    using t a by blast
  have w: "fst (verify_text example_pipeline ''ab12cd34'' ''2024-01-01T12:00:00''
          ''Aspirin cures everything.'' Map.empty)
     = HTTPException 500 (''Verification failed: '' @ error_str (OtherError ''RuntimeError'' ''model not loaded''))"
    "snd (verify_text example_pipeline ''ab12cd34'' ''2024-01-01T12:00:00''
          ''Aspirin cures everything.'' Map.empty) ''ab12cd34''
        = Some \<lparr> job_status = ''failed'', job_created_at = ''2024-01-01T12:00:00'',
                 job_llm_text = ''Aspirin cures everything.'',
                 job_error = Some (error_str (OtherError ''RuntimeError'' ''model not loaded'')),
                 job_response = None \<rparr>"
    using t v by blast+
  have x: "fst (upload_source_document example_pipeline ''guide.pdf'' None {})
        = HTTPException 500 (''Failed to ingest document: '' @ error_str (OtherError ''ValueError'' ''not a PDF''))"
    using u a(3) s by blast
  show ?thesis using a s w x by simp
qed

end
